theory Spec2Isabelle
  imports Main "HOL-Library.Sublist"
begin

section \<open>The library application of \<open>app.py\<close>\<close>

text \<open>
  The application keeps three tables (users, books, borrow records) behind Flask routes.
  Each view function is modelled as a function from the stored tables, the user id held in
  the caller's session and the request data to a \<open>result\<close>: the tables after the
  request, what the client receives, the flashed messages and the session afterwards.
  An uncaught Python exception is the outcome \<open>Crash\<close>; the pending changes of the request
  are then discarded, so the tables stay as they were.

  Quantities are Python integers (\<open>int\<close>); the storage engine holds signed 64-bit
  integers, and writing a larger one raises \<open>OverflowError\<close>. Text is a list of 8-bit
  characters (the bytes of its UTF-8 form).
\<close>

subsection \<open>Database models\<close>

type_synonym timestamp = nat

text \<open>\<open>class User\<close>; \<open>uid\<close> is the column \<open>id\<close>. All columns but the timestamp are NOT NULL.\<close>

record User =
  uid :: nat
  fullname :: string
  username :: string
  email :: string
  password_hash :: string
  created_at :: timestamp

text \<open>\<open>class Book\<close>; \<open>bid\<close> is the column \<open>id\<close>. \<open>author\<close> and \<open>isbn\<close> are nullable.\<close>

record Book =
  bid :: nat
  title :: string
  author :: "string option"
  isbn :: "string option"
  quantity :: int
  available :: bool

text \<open>\<open>class Borrow\<close>; \<open>rid\<close> is the column \<open>id\<close>.\<close>

record Borrow =
  rid :: nat
  user_id :: nat
  book_id :: nat
  borrowed_at :: timestamp
  returned_at :: "timestamp option"

record db =
  user_table :: "User list"
  book_table :: "Book list"
  borrow_table :: "Borrow list"

definition empty_db :: db where
  "empty_db = \<lparr>user_table = [], book_table = [], borrow_table = []\<rparr>"

text \<open>
  An integer primary key without a value gets the largest id of the table plus one
  (1 in an empty table).
\<close>

definition next_id :: "nat list \<Rightarrow> nat" where
  "next_id ids = Suc (foldr max ids 0)"

text \<open>\<open>Model.query.get(id)\<close>: the row with that primary key, or \<open>None\<close>.\<close>

definition get_user :: "db \<Rightarrow> nat \<Rightarrow> User option" where
  "get_user d i = find (\<lambda>u. uid u = i) (user_table d)"

definition get_book :: "db \<Rightarrow> nat \<Rightarrow> Book option" where
  "get_book d i = find (\<lambda>b. bid b = i) (book_table d)"

definition get_borrow :: "db \<Rightarrow> nat \<Rightarrow> Borrow option" where
  "get_borrow d i = find (\<lambda>r. rid r = i) (borrow_table d)"

subsection \<open>Requests and responses\<close>

datatype http_method = GET | POST

text \<open>\<open>request.form\<close> and \<open>request.args\<close>: \<open>get\<close> gives \<open>None\<close> for a field that was not sent.\<close>

type_synonym form = "string \<rightharpoonup> string"

datatype exn = ValueError | AttributeError | IntegrityError | OverflowError

datatype page =
    RegisterPage
  | LoginPage
  | DashboardPage nat nat nat
  | BooksPage "Book list" string
  | AddBookPage
  | EditBookPage Book

text \<open>
  What a request ends in: \<open>redirect(url_for(name))\<close>, a rendered template with its
  arguments, \<open>abort(404)\<close> of \<open>get_or_404\<close>, or an exception that no handler catches.
\<close>

datatype outcome =
    Redirect string
  | Render page
  | Abort nat
  | Crash exn

record result =
  db_after :: db
  outcome :: outcome
  flashed :: "(string \<times> string) list"
  session_after :: "nat option"

definition reply :: "db \<Rightarrow> nat option \<Rightarrow> outcome \<Rightarrow> (string \<times> string) list \<Rightarrow> result" where
  "reply d sess out fl = \<lparr>db_after = d, outcome = out, flashed = fl, session_after = sess\<rparr>"

text \<open>
  What the environment supplies to a request: the clock (\<open>datetime.utcnow()\<close>), the two
  functions of \<open>werkzeug.security\<close>, and Python's builtin \<open>int\<close> on text
  (\<open>None\<close> stands for its \<open>ValueError\<close>). None of them is part of the repository, so the
  views are modelled for any such functions.
\<close>

record env =
  now :: timestamp
  generate_password_hash :: "string \<Rightarrow> string"
  check_password_hash :: "string \<Rightarrow> string \<Rightarrow> bool"
  py_int :: "string \<Rightarrow> int option"

subsection \<open>Session\<close>

text \<open>\<open>load_user\<close>: the session's user id is looked up; an unknown id is an anonymous user.\<close>

definition current_user :: "db \<Rightarrow> nat option \<Rightarrow> User option" where
  "current_user d sess = (case sess of None \<Rightarrow> None | Some i \<Rightarrow> get_user d i)"

text \<open>
  \<open>@login_required\<close> with \<open>login_manager.login_view = 'login'\<close>: an anonymous caller gets the
  login manager's message and a redirect to the login view; the view does not run.
\<close>

definition login_required :: "db \<Rightarrow> nat option \<Rightarrow> (User \<Rightarrow> result) \<Rightarrow> result" where
  "login_required d sess view =
     (case current_user d sess of
        None \<Rightarrow> reply d sess (Redirect ''login'') [(''Please log in to access this page.'', ''message'')]
      | Some u \<Rightarrow> view u)"

subsection \<open>Reading and storing integers\<close>

text \<open>\<open>int(request.form.get('quantity') or 1)\<close>: a missing or empty field counts as 1.\<close>

definition quantity_field :: "env \<Rightarrow> string option \<Rightarrow> exn + int" where
  "quantity_field e v =
     (case v of
        None \<Rightarrow> Inr 1
      | Some s \<Rightarrow>
          if s = [] then Inr 1
          else (case py_int e s of None \<Rightarrow> Inl ValueError | Some n \<Rightarrow> Inr n))"

text \<open>
  The integers an \<open>INTEGER\<close> column of SQLite holds. Binding any other Python integer to a
  statement raises \<open>OverflowError\<close> before the statement runs.
\<close>

definition int64_ok :: "int \<Rightarrow> bool" where
  "int64_ok n = (- (2 ^ 63) \<le> n \<and> n < 2 ^ 63)"

subsection \<open>Text search\<close>

definition ascii_lower :: "char \<Rightarrow> char" where
  "ascii_lower c =
     (if of_char (CHR ''A'') \<le> (of_char c :: nat) \<and> (of_char c :: nat) \<le> of_char (CHR ''Z'')
      then char_of (of_char c + (32::nat)) else c)"

text \<open>
  The database is SQLite (\<open>SQLALCHEMY_DATABASE_URI\<close>). Its \<open>LIKE\<close>: \<open>%\<close> in the pattern
  stands for any run of characters, \<open>_\<close> for any one character, and any other character
  matches itself or the same ASCII letter in the other case. The elements of the model's
  text are bytes, so on text outside ASCII \<open>_\<close> stands for one byte here, where SQLite
  takes one character; patterns without \<open>_\<close> are not affected.
\<close>

fun sqlite_like :: "string \<Rightarrow> string \<Rightarrow> bool" where
  "sqlite_like [] s = (s = [])"
| "sqlite_like (p # ps) [] = (p = CHR ''%'' \<and> sqlite_like ps [])"
| "sqlite_like (p # ps) (c # cs) =
     (if p = CHR ''%'' then sqlite_like ps (c # cs) \<or> sqlite_like (p # ps) cs
      else (p = CHR ''_'' \<or> ascii_lower p = ascii_lower c) \<and> sqlite_like ps cs)"

text \<open>
  \<open>column.contains(q)\<close> is the SQL condition \<open>column LIKE '%' || q || '%'\<close>, without an escape
  character. On a NULL column the condition is NULL, and a row is selected only where the
  whole filter is true, so a NULL column never selects the row.
\<close>

definition contains :: "string option \<Rightarrow> string \<Rightarrow> bool" where
  "contains col q =
     (case col of
        None \<Rightarrow> False
      | Some s \<Rightarrow> sqlite_like (CHR ''%'' # q @ [CHR ''%'']) s)"

subsection \<open>Writing rows\<close>

text \<open>
  \<open>db.session.add(user); db.session.commit()\<close>: the insert fails with \<open>IntegrityError\<close> when a
  NOT NULL column has no value or a UNIQUE column repeats a stored value.
\<close>

definition insert_user ::
  "db \<Rightarrow> string option \<Rightarrow> string option \<Rightarrow> string option \<Rightarrow> string \<Rightarrow> timestamp \<Rightarrow> exn + db" where
  "insert_user d fn un em ph t =
     (case (fn, un, em) of
        (Some f, Some u, Some m) \<Rightarrow>
          if \<exists>x \<in> set (user_table d). username x = u \<or> email x = m then Inl IntegrityError
          else Inr (d\<lparr>user_table := user_table d @
                 [\<lparr>uid = next_id (map uid (user_table d)), fullname = f, username = u,
                   email = m, password_hash = ph, created_at = t\<rparr>]\<rparr>)
      | _ \<Rightarrow> Inl IntegrityError)"

text \<open>
  The same for a new book: \<open>title\<close> is NOT NULL, \<open>isbn\<close> is UNIQUE (NULL may repeat, the empty
  text may not). A quantity outside the 64-bit range fails first, when the values are bound.
\<close>

definition insert_book ::
  "db \<Rightarrow> string option \<Rightarrow> string option \<Rightarrow> string option \<Rightarrow> int \<Rightarrow> bool \<Rightarrow> exn + db" where
  "insert_book d ti au isb qty av =
     (if \<not> int64_ok qty then Inl OverflowError
      else case ti of
        None \<Rightarrow> Inl IntegrityError
      | Some t \<Rightarrow>
          if isb \<noteq> None \<and> (\<exists>b \<in> set (book_table d). isbn b = isb) then Inl IntegrityError
          else Inr (d\<lparr>book_table := book_table d @
                 [\<lparr>bid = next_id (map bid (book_table d)), title = t, author = au,
                   isbn = isb, quantity = qty, available = av\<rparr>]\<rparr>))"

text \<open>Committing the changed columns of the book with id \<open>i\<close>, under the same constraints.\<close>

definition update_book ::
  "db \<Rightarrow> nat \<Rightarrow> string option \<Rightarrow> string option \<Rightarrow> string option \<Rightarrow> int \<Rightarrow> bool \<Rightarrow> exn + db" where
  "update_book d i ti au isb qty av =
     (if \<not> int64_ok qty then Inl OverflowError
      else case ti of
        None \<Rightarrow> Inl IntegrityError
      | Some t \<Rightarrow>
          if isb \<noteq> None \<and> (\<exists>b \<in> set (book_table d). bid b \<noteq> i \<and> isbn b = isb)
          then Inl IntegrityError
          else Inr (d\<lparr>book_table := map (\<lambda>b. if bid b = i
                 then b\<lparr>title := t, author := au, isbn := isb, quantity := qty, available := av\<rparr>
                 else b) (book_table d)\<rparr>))"

text \<open>Storing a changed \<open>quantity\<close> and \<open>available\<close> of the book with id \<open>i\<close>.\<close>

definition set_stock :: "db \<Rightarrow> nat \<Rightarrow> int \<Rightarrow> bool \<Rightarrow> db" where
  "set_stock d i qty av =
     d\<lparr>book_table := map (\<lambda>b. if bid b = i then b\<lparr>quantity := qty, available := av\<rparr> else b)
          (book_table d)\<rparr>"

subsection \<open>Routes\<close>

definition home :: "db \<Rightarrow> nat option \<Rightarrow> result" where
  "home d sess =
     (if current_user d sess \<noteq> None then reply d sess (Redirect ''dashboard'') []
      else reply d sess (Redirect ''login'') [])"

text \<open>
  \<open>set_password\<close> calls \<open>generate_password_hash\<close>, which fails on \<open>None\<close> before anything is
  stored.
\<close>

definition register :: "env \<Rightarrow> db \<Rightarrow> nat option \<Rightarrow> http_method \<Rightarrow> form \<Rightarrow> result" where
  "register e d sess m frm =
     (if current_user d sess \<noteq> None then reply d sess (Redirect ''dashboard'') []
      else if m = POST then
        (let fn = frm ''fullname''; un = frm ''username''; em = frm ''email'';
             password = frm ''password''; confirm = frm ''confirm_password''
         in if password \<noteq> confirm then
              reply d sess (Redirect ''register'') [(''Passwords do not match.'', ''danger'')]
            else if \<exists>u \<in> set (user_table d). Some (username u) = un \<or> Some (email u) = em then
              reply d sess (Redirect ''register'')
                [(''Username or email already exists.'', ''danger'')]
            else
              (case password of
                 None \<Rightarrow> reply d sess (Crash AttributeError) []
               | Some p \<Rightarrow>
                   (case insert_user d fn un em (generate_password_hash e p) (now e) of
                      Inl x \<Rightarrow> reply d sess (Crash x) []
                    | Inr d' \<Rightarrow>
                        reply d' sess (Redirect ''login'')
                          [(''Registration successful. Please login.'', ''success'')])))
      else reply d sess (Render RegisterPage) [])"

text \<open>
  \<open>user and user.check_password(password)\<close>: the hash is only checked for a user that was
  found, and \<open>check_password_hash\<close> fails on \<open>None\<close>. \<open>login_user\<close> puts the user's id into
  the session.
\<close>

definition login :: "env \<Rightarrow> db \<Rightarrow> nat option \<Rightarrow> http_method \<Rightarrow> form \<Rightarrow> result" where
  "login e d sess m frm =
     (if current_user d sess \<noteq> None then reply d sess (Redirect ''dashboard'') []
      else if m = POST then
        (let un = frm ''username''; password = frm ''password''
         in case find (\<lambda>u. Some (username u) = un) (user_table d) of
              None \<Rightarrow>
                reply d sess (Redirect ''login'') [(''Invalid username or password.'', ''danger'')]
            | Some user \<Rightarrow>
                (case password of
                   None \<Rightarrow> reply d sess (Crash AttributeError) []
                 | Some p \<Rightarrow>
                     if check_password_hash e (password_hash user) p then
                       reply d (Some (uid user)) (Redirect ''dashboard'')
                         [(''Logged in successfully.'', ''success'')]
                     else
                       reply d sess (Redirect ''login'')
                         [(''Invalid username or password.'', ''danger'')]))
      else reply d sess (Render LoginPage) [])"

definition logout :: "db \<Rightarrow> nat option \<Rightarrow> result" where
  "logout d sess =
     login_required d sess (\<lambda>_.
       reply d None (Redirect ''login'') [(''Logged out successfully.'', ''info'')])"

definition dashboard :: "db \<Rightarrow> nat option \<Rightarrow> result" where
  "dashboard d sess =
     login_required d sess (\<lambda>_.
       reply d sess
         (Render (DashboardPage (length (book_table d)) (length (user_table d))
            (length (filter (\<lambda>r. returned_at r = None) (borrow_table d))))) [])"

definition books :: "db \<Rightarrow> nat option \<Rightarrow> form \<Rightarrow> result" where
  "books d sess args =
     login_required d sess (\<lambda>_.
       (let q = (case args ''q'' of None \<Rightarrow> [] | Some v \<Rightarrow> v)
        in if q \<noteq> [] then
             reply d sess
               (Render (BooksPage
                  (filter (\<lambda>b. contains (Some (title b)) q \<or> contains (author b) q) (book_table d))
                  q)) []
           else reply d sess (Render (BooksPage (book_table d) q)) []))"

text \<open>\<open>if isbn and ...\<close>: the ISBN is looked up only when it is neither missing nor empty.\<close>

definition add_book :: "env \<Rightarrow> db \<Rightarrow> nat option \<Rightarrow> http_method \<Rightarrow> form \<Rightarrow> result" where
  "add_book e d sess m frm =
     login_required d sess (\<lambda>_.
       if m = POST then
         (case quantity_field e (frm ''quantity'') of
            Inl x \<Rightarrow> reply d sess (Crash x) []
          | Inr qty \<Rightarrow>
              (let ti = frm ''title''; au = frm ''author''; isb = frm ''isbn''
               in if isb \<noteq> None \<and> isb \<noteq> Some [] \<and> (\<exists>b \<in> set (book_table d). isbn b = isb) then
                    reply d sess (Redirect ''add_book'')
                      [(''A book with that ISBN already exists.'', ''danger'')]
                  else
                    (case insert_book d ti au isb qty (0 < qty) of
                       Inl x \<Rightarrow> reply d sess (Crash x) []
                     | Inr d' \<Rightarrow>
                         reply d' sess (Redirect ''books'')
                           [(''Book added successfully.'', ''success'')])))
       else reply d sess (Render AddBookPage) [])"

definition edit_book ::
  "env \<Rightarrow> db \<Rightarrow> nat option \<Rightarrow> nat \<Rightarrow> http_method \<Rightarrow> form \<Rightarrow> result" where
  "edit_book e d sess bk_id m frm =
     login_required d sess (\<lambda>_.
       case get_book d bk_id of
         None \<Rightarrow> reply d sess (Abort 404) []
       | Some book \<Rightarrow>
           if m = POST then
             (case quantity_field e (frm ''quantity'') of
                Inl x \<Rightarrow> reply d sess (Crash x) []
              | Inr qty \<Rightarrow>
                  (case update_book d bk_id (frm ''title'') (frm ''author'') (frm ''isbn'')
                          qty (0 < qty) of
                     Inl x \<Rightarrow> reply d sess (Crash x) []
                   | Inr d' \<Rightarrow>
                       reply d' sess (Redirect ''books'')
                         [(''Book updated successfully.'', ''success'')]))
           else reply d sess (Render (EditBookPage book)) [])"

text \<open>
  \<open>db.session.delete(book)\<close>: the relationship \<open>Book.borrows\<close> (the \<open>backref\<close> of \<open>Borrow.book\<close>)
  has no delete cascade, so the borrow records of the book get \<open>book_id = NULL\<close> first; the
  column is NOT NULL, and the commit fails when the book has any borrow record.
\<close>

definition delete_book :: "db \<Rightarrow> nat option \<Rightarrow> nat \<Rightarrow> result" where
  "delete_book d sess bk_id =
     login_required d sess (\<lambda>_.
       case get_book d bk_id of
         None \<Rightarrow> reply d sess (Abort 404) []
       | Some book \<Rightarrow>
           if \<exists>r \<in> set (borrow_table d). book_id r = bid book then
             reply d sess (Crash IntegrityError) []
           else
             reply (d\<lparr>book_table := filter (\<lambda>b. bid b \<noteq> bid book) (book_table d)\<rparr>) sess
               (Redirect ''books'') [(''Book deleted.'', ''info'')])"

text \<open>
  The new quantity of \<open>borrow\<close> lies between 0 and the stored one, so it is in the 64-bit
  range whenever the stored one is: this write cannot overflow.
\<close>

definition borrow :: "env \<Rightarrow> db \<Rightarrow> nat option \<Rightarrow> nat \<Rightarrow> result" where
  "borrow e d sess bk_id =
     login_required d sess (\<lambda>user.
       case get_book d bk_id of
         None \<Rightarrow> reply d sess (Abort 404) []
       | Some book \<Rightarrow>
           if quantity book \<le> 0 then
             reply d sess (Redirect ''books'') [(''Book not available.'', ''danger'')]
           else
             (let qty = quantity book - 1;
                  av = (if qty = 0 then False else available book);
                  borrow_record = \<lparr>rid = next_id (map rid (borrow_table d)), user_id = uid user,
                                   book_id = bid book, borrowed_at = now e, returned_at = None\<rparr>;
                  d' = set_stock d (bid book) qty av
              in reply (d'\<lparr>borrow_table := borrow_table d' @ [borrow_record]\<rparr>) sess
                   (Redirect ''books'')
                   [(''You borrowed '' @ [CHR 0x22] @ title book @ [CHR 0x22] @ ''.'',
                     ''success'')]))"

text \<open>
  \<open>Book.query.get\<close> gives \<open>None\<close> for an id without a book, and \<open>book.quantity += 1\<close> on
  \<open>None\<close> is an \<open>AttributeError\<close>. A stored \<open>returned_at\<close> is a \<open>datetime\<close>, which is always
  true as a condition. The commit fails with \<open>OverflowError\<close> when the incremented quantity
  is outside the 64-bit range; nothing is stored then.
\<close>

definition return_book :: "env \<Rightarrow> db \<Rightarrow> nat option \<Rightarrow> nat \<Rightarrow> result" where
  "return_book e d sess br_id =
     login_required d sess (\<lambda>_.
       case get_borrow d br_id of
         None \<Rightarrow> reply d sess (Abort 404) []
       | Some br \<Rightarrow>
           if returned_at br \<noteq> None then
             reply d sess (Redirect ''dashboard'') [(''This book is already returned.'', ''info'')]
           else
             (case get_book d (book_id br) of
                None \<Rightarrow> reply d sess (Crash AttributeError) []
              | Some book \<Rightarrow>
                  if \<not> int64_ok (quantity book + 1) then reply d sess (Crash OverflowError) []
                  else
                  (let d' = d\<lparr>borrow_table := map (\<lambda>r. if rid r = rid br
                                   then r\<lparr>returned_at := Some (now e)\<rparr> else r) (borrow_table d)\<rparr>;
                       d'' = set_stock d' (bid book) (quantity book + 1) True
                   in reply d'' sess (Redirect ''dashboard'')
                        [(''Book '' @ [CHR 0x22] @ title book @ [CHR 0x22] @
                            '' returned successfully.'', ''success'')])))"

subsection \<open>The application as a transition system\<close>

datatype request =
    Req_home
  | Req_register http_method form
  | Req_login http_method form
  | Req_logout
  | Req_dashboard
  | Req_books form
  | Req_add_book http_method form
  | Req_edit_book nat http_method form
  | Req_delete_book nat
  | Req_borrow nat
  | Req_return_book nat

fun handle :: "env \<Rightarrow> db \<Rightarrow> nat option \<Rightarrow> request \<Rightarrow> result" where
  "handle e d sess Req_home = home d sess"
| "handle e d sess (Req_register m frm) = register e d sess m frm"
| "handle e d sess (Req_login m frm) = login e d sess m frm"
| "handle e d sess Req_logout = logout d sess"
| "handle e d sess Req_dashboard = dashboard d sess"
| "handle e d sess (Req_books args) = books d sess args"
| "handle e d sess (Req_add_book m frm) = add_book e d sess m frm"
| "handle e d sess (Req_edit_book i m frm) = edit_book e d sess i m frm"
| "handle e d sess (Req_delete_book i) = delete_book d sess i"
| "handle e d sess (Req_borrow i) = borrow e d sess i"
| "handle e d sess (Req_return_book i) = return_book e d sess i"


text \<open>
  The stored tables the application can be in: it starts with empty tables
  (\<open>db.create_all()\<close>), and every request, by any caller, leads to the next tables.
\<close>

inductive reachable :: "db \<Rightarrow> bool" where
  init: "reachable empty_db"
| step: "reachable d \<Longrightarrow> reachable (db_after (handle e d sess req))"

subsection \<open>Sample data\<close>

text \<open>
  The integer reader of the sample environment. On text of ASCII characters it gives what
  Python's \<open>int(s)\<close> gives: whitespace around the literal is dropped, one sign may come
  first, then decimal digits, with single underscores allowed between digits.
\<close>

definition is_space :: "char \<Rightarrow> bool" where
  "is_space c = (c \<in> set [CHR '' '', CHR 0x09, CHR 0x0A, CHR 0x0B, CHR 0x0C, CHR 0x0D])"

definition strip :: "string \<Rightarrow> string" where
  "strip s = rev (dropWhile is_space (rev (dropWhile is_space s)))"

definition is_digit :: "char \<Rightarrow> bool" where
  "is_digit c = (of_char (CHR ''0'') \<le> (of_char c :: nat) \<and> (of_char c :: nat) \<le> of_char (CHR ''9''))"

definition digit_val :: "char \<Rightarrow> nat" where
  "digit_val c = of_char c - of_char (CHR ''0'')"

fun parse_digits :: "nat \<Rightarrow> string \<Rightarrow> nat option" where
  "parse_digits acc [] = Some acc"
| "parse_digits acc (c # cs) =
     (if is_digit c then parse_digits (10 * acc + digit_val c) cs
      else if c = CHR ''_'' then
        (case cs of
           [] \<Rightarrow> None
         | d # ds \<Rightarrow> if is_digit d then parse_digits (10 * acc + digit_val d) ds else None)
      else None)"

definition parse_nat :: "string \<Rightarrow> nat option" where
  "parse_nat s =
     (case s of
        [] \<Rightarrow> None
      | c # cs \<Rightarrow> if is_digit c then parse_digits (digit_val c) cs else None)"

definition ascii_int :: "string \<Rightarrow> int option" where
  "ascii_int s =
     (case strip s of
        [] \<Rightarrow> None
      | c # cs \<Rightarrow>
          if c = CHR ''-'' then map_option (\<lambda>n. - int n) (parse_nat cs)
          else if c = CHR ''+'' then map_option int (parse_nat cs)
          else map_option int (parse_nat (c # cs)))"

text \<open>
  Concrete tables and a concrete environment on which the theorems below are run: one
  registered user, two books, one borrow record. The sample hash function only marks its
  argument.
\<close>

definition test_env :: env where
  "test_env = \<lparr>now = 7, generate_password_hash = (\<lambda>p. ''h$'' @ p),
                check_password_hash = (\<lambda>h p. h = ''h$'' @ p), py_int = ascii_int\<rparr>"

definition ann :: User where
  "ann = \<lparr>uid = 1, fullname = ''Ann Lee'', username = ''ann'', email = ''ann@example.org'',
          password_hash = ''h$pw'', created_at = 7\<rparr>"

definition dune :: "int \<Rightarrow> bool \<Rightarrow> Book" where
  "dune q av = \<lparr>bid = 1, title = ''Dune'', author = Some ''Frank Herbert'',
                isbn = Some ''9780441013593'', quantity = q, available = av\<rparr>"

definition emma :: "int \<Rightarrow> bool \<Rightarrow> Book" where
  "emma q av = \<lparr>bid = 2, title = ''Emma'', author = None, isbn = None, quantity = q,
                available = av\<rparr>"

definition loan :: "timestamp option \<Rightarrow> Borrow" where
  "loan ret = \<lparr>rid = 1, user_id = 1, book_id = 1, borrowed_at = 7, returned_at = ret\<rparr>"

definition library :: "Book list \<Rightarrow> Borrow list \<Rightarrow> db" where
  "library bs rs = \<lparr>user_table = [ann], book_table = bs, borrow_table = rs\<rparr>"

subsection \<open>Invariant and success\<close>

text \<open>
  The relation between the two stock columns that every request keeps: a book with a
  positive quantity is flagged available. (The converse can fail after a return.)
\<close>

definition flag_inv :: "db \<Rightarrow> bool" where
  "flag_inv d = (\<forall>b \<in> set (book_table d). 0 < quantity b \<longrightarrow> available b)"

text \<open>A request has succeeded when its one flashed message has the category \<open>success\<close>.\<close>

definition succeeded :: "result \<Rightarrow> bool" where
  "succeeded r = (map snd (flashed r) = [''success''])"

text \<open>No book has a negative quantity.\<close>

definition nonneg_inv :: "db \<Rightarrow> bool" where
  "nonneg_inv d = (\<forall>b \<in> set (book_table d). 0 \<le> quantity b)"


subsection \<open>The book search in words\<close>




subsection \<open>Sample requests\<close>

definition regform :: form where
  "regform = [''fullname'' \<mapsto> ''Ann Lee'', ''username'' \<mapsto> ''ann'',
              ''email'' \<mapsto> ''ann@example.org'', ''password'' \<mapsto> ''pw'',
              ''confirm_password'' \<mapsto> ''pw'']"

definition bookform :: "string \<Rightarrow> form" where
  "bookform q = [''title'' \<mapsto> ''Dune'', ''author'' \<mapsto> ''Frank Herbert'',
                 ''isbn'' \<mapsto> ''9780441013593'', ''quantity'' \<mapsto> q]"

definition emmaform :: "string \<Rightarrow> form" where
  "emmaform q = [''title'' \<mapsto> ''Emma'', ''quantity'' \<mapsto> q]"

section \<open>Properties\<close>

subsection \<open>Lookups, fresh ids and the login gate\<close>

lemmas fixture_defs = test_env_def ann_def dune_def emma_def loan_def library_def
lemmas lookup_defs = current_user_def get_user_def get_book_def get_borrow_def

lemma reply_sel [simp]:
  "db_after (reply d sess out fl) = d"
  "outcome (reply d sess out fl) = out"
  "flashed (reply d sess out fl) = fl"
  "session_after (reply d sess out fl) = sess"
  by (simp_all add: reply_def)

lemma find_map_upd:
  assumes "\<And>x. key (f x) = key x"
  shows "find (\<lambda>x. key x = k) (map (\<lambda>x. if key x = i then f x else x) xs)
         = map_option (\<lambda>x. if key x = i then f x else x) (find (\<lambda>x. key x = k) xs)"
  using assms by (induction xs) auto

lemma find_SomeD: "find P xs = Some x \<Longrightarrow> x \<in> set xs \<and> P x"
  by (induction xs) (auto split: if_splits)

lemma foldr_max_le: "x \<in> set xs \<Longrightarrow> x \<le> foldr max xs (n::nat)"
  by (induction xs) (auto simp: max_def)

lemma foldr_max_start: "foldr max xs (n::nat) = max n (foldr max xs 0)"
  by (induction xs) (auto simp: max_def)

lemma next_id_fresh: "next_id ids \<notin> set ids"
  using foldr_max_le[of "next_id ids" ids 0] by (auto simp: next_id_def)

lemma next_id_snoc: "next_id (ids @ [next_id ids]) = Suc (next_id ids)"
  by (simp add: next_id_def foldr_max_start[of ids "Suc _"])

lemma login_required_Some:
  "current_user d sess = Some u \<Longrightarrow> login_required d sess view = view u"
  by (simp add: login_required_def)


lemma current_user_cong:
  "user_table d' = user_table d \<Longrightarrow> current_user d' sess = current_user d sess"
  by (simp add: current_user_def get_user_def split: option.splits)


lemma get_book_SomeD: "get_book d k = Some b \<Longrightarrow> b \<in> set (book_table d) \<and> bid b = k"
  using find_SomeD[of "\<lambda>x. bid x = k"] by (auto simp: get_book_def)

lemma get_borrow_SomeD: "get_borrow d i = Some r \<Longrightarrow> r \<in> set (borrow_table d) \<and> rid r = i"
  using find_SomeD[of "\<lambda>x. rid x = i"] by (auto simp: get_borrow_def)

lemma succeeded_reply [simp]: "succeeded (reply d sess out fl) = (map snd fl = [''success''])"
  by (simp add: succeeded_def)

lemmas py_int_defs = quantity_field_def test_env_def ascii_int_def strip_def is_space_def
  parse_nat_def is_digit_def digit_val_def int64_ok_def

subsection \<open>What a request that succeeds has done\<close>

text \<open>A borrow call of a logged-in user on a book in stock, as one equation.\<close>

lemma borrow_success:
  assumes "current_user d sess = Some u" and "get_book d k = Some b" and "0 < quantity b"
  shows "borrow e d sess k =
     reply ((set_stock d k (quantity b - 1) (if quantity b - 1 = 0 then False else available b))
              \<lparr>borrow_table := borrow_table d @
                 [\<lparr>rid = next_id (map rid (borrow_table d)), user_id = uid u, book_id = k,
                   borrowed_at = now e, returned_at = None\<rparr>]\<rparr>)
       sess (Redirect ''books'')
       [(''You borrowed '' @ [CHR 0x22] @ title b @ [CHR 0x22] @ ''.'', ''success'')]"
  using assms get_book_SomeD[OF assms(2)]
  by (simp add: borrow_def login_required_Some Let_def set_stock_def)

text \<open>A return call of a logged-in user on an open record whose book exists.\<close>

lemma return_book_success:
  assumes "current_user d sess = Some u" and "get_borrow d i = Some r"
    and "returned_at r = None" and "get_book d (book_id r) = Some b"
    and "int64_ok (quantity b + 1)"
  shows "return_book e d sess i =
     reply (set_stock (d\<lparr>borrow_table := map (\<lambda>x. if rid x = i
                then x\<lparr>returned_at := Some (now e)\<rparr> else x) (borrow_table d)\<rparr>)
              (book_id r) (quantity b + 1) True)
       sess (Redirect ''dashboard'')
       [(''Book '' @ [CHR 0x22] @ title b @ [CHR 0x22] @ '' returned successfully.'', ''success'')]"
proof -
  have "rid r = i"
    using get_borrow_SomeD[OF assms(2)] by simp
  moreover have "bid b = book_id r"
    using get_book_SomeD[OF assms(4)] by simp
  ultimately show ?thesis
    using assms by (simp add: return_book_def login_required_Some Let_def)
qed

lemma return_book_overflow:
  assumes "current_user d sess = Some u" and "get_borrow d i = Some r"
    and "returned_at r = None" and "get_book d (book_id r) = Some b"
    and "\<not> int64_ok (quantity b + 1)"
  shows "return_book e d sess i = reply d sess (Crash OverflowError) []"
  using assms by (simp add: return_book_def login_required_Some)

lemma insert_book_table:
  "insert_book d ti au isb qty av = Inr d' \<Longrightarrow>
     \<exists>t. ti = Some t \<and> book_table d' = book_table d @
       [\<lparr>bid = next_id (map bid (book_table d)), title = t, author = au, isbn = isb,
         quantity = qty, available = av\<rparr>]
       \<and> user_table d' = user_table d \<and> borrow_table d' = borrow_table d"
  by (auto simp: insert_book_def split: option.splits if_splits)

lemma update_book_table:
  "update_book d i ti au isb qty av = Inr d' \<Longrightarrow>
     \<exists>t. ti = Some t \<and> book_table d' = map (\<lambda>b. if bid b = i
         then b\<lparr>title := t, author := au, isbn := isb, quantity := qty, available := av\<rparr>
         else b) (book_table d)
       \<and> user_table d' = user_table d \<and> borrow_table d' = borrow_table d"
  by (auto simp: update_book_def split: option.splits if_splits)

lemma insert_user_table:
  "insert_user d fn un em ph t = Inr d' \<Longrightarrow>
     book_table d' = book_table d \<and> borrow_table d' = borrow_table d"
  by (auto simp: insert_user_def split: option.splits if_splits)

lemma add_book_succeeded:
  assumes "succeeded (add_book e d sess m frm)"
  shows "\<exists>t qty. quantity_field e (frm ''quantity'') = Inr qty \<and> frm ''title'' = Some t
          \<and> book_table (db_after (add_book e d sess m frm)) = book_table d @
              [\<lparr>bid = next_id (map bid (book_table d)), title = t, author = frm ''author'',
                isbn = frm ''isbn'', quantity = qty, available = (0 < qty)\<rparr>]"
  using assms
  by (auto simp: add_book_def login_required_def Let_def insert_book_def
      split: option.splits sum.splits if_splits)

lemma add_book_not_succeeded:
  "\<not> succeeded (add_book e d sess m frm) \<Longrightarrow> db_after (add_book e d sess m frm) = d"
  by (auto simp: add_book_def login_required_def Let_def
      split: option.splits sum.splits if_splits)

lemma edit_book_succeeded:
  assumes "succeeded (edit_book e d sess k m frm)"
  shows "\<exists>t qty. quantity_field e (frm ''quantity'') = Inr qty \<and> frm ''title'' = Some t
          \<and> get_book d k \<noteq> None
          \<and> book_table (db_after (edit_book e d sess k m frm)) = map (\<lambda>b. if bid b = k
               then b\<lparr>title := t, author := frm ''author'', isbn := frm ''isbn'',
                       quantity := qty, available := (0 < qty)\<rparr>
               else b) (book_table d)"
  using assms
  by (auto simp: edit_book_def login_required_def Let_def update_book_def
      split: option.splits sum.splits if_splits)

lemma edit_book_not_succeeded:
  "\<not> succeeded (edit_book e d sess k m frm) \<Longrightarrow> db_after (edit_book e d sess k m frm) = d"
  by (auto simp: edit_book_def login_required_def Let_def
      split: option.splits sum.splits if_splits)

lemma borrow_succeeded:
  assumes "succeeded (borrow e d sess k)"
  shows "\<exists>u b. current_user d sess = Some u \<and> get_book d k = Some b \<and> 0 < quantity b"
  using assms
  by (auto simp: borrow_def login_required_def Let_def split: option.splits if_splits)

lemma return_book_succeeded:
  assumes "succeeded (return_book e d sess i)"
  shows "\<exists>u r b. current_user d sess = Some u \<and> get_borrow d i = Some r
          \<and> returned_at r = None \<and> get_book d (book_id r) = Some b
          \<and> int64_ok (quantity b + 1)"
  using assms
  by (auto simp: return_book_def login_required_def Let_def split: option.splits if_splits)

subsection \<open>What every reachable state satisfies\<close>

lemma flag_inv_register: "flag_inv d \<Longrightarrow> flag_inv (db_after (register e d sess m frm))"
  by (auto simp: register_def Let_def flag_inv_def dest!: insert_user_table split: option.splits sum.splits)

lemma flag_inv_login: "flag_inv d \<Longrightarrow> flag_inv (db_after (login e d sess m frm))"
  by (auto simp: login_def Let_def split: option.splits)

lemma flag_inv_add_book: "flag_inv d \<Longrightarrow> flag_inv (db_after (add_book e d sess m frm))"
  by (auto simp: add_book_def login_required_def Let_def flag_inv_def dest!: insert_book_table
      split: option.splits sum.splits)

lemma flag_inv_edit_book: "flag_inv d \<Longrightarrow> flag_inv (db_after (edit_book e d sess i m frm))"
  by (auto simp: edit_book_def login_required_def Let_def flag_inv_def dest!: update_book_table
      split: option.splits sum.splits if_splits)

lemma flag_inv_delete_book: "flag_inv d \<Longrightarrow> flag_inv (db_after (delete_book d sess i))"
  by (auto simp: delete_book_def login_required_def flag_inv_def split: option.splits)

lemma flag_inv_borrow: "flag_inv d \<Longrightarrow> flag_inv (db_after (borrow e d sess i))"
  by (auto simp: borrow_def login_required_def Let_def flag_inv_def set_stock_def
      dest!: get_book_SomeD split: option.splits if_splits)

lemma flag_inv_return_book: "flag_inv d \<Longrightarrow> flag_inv (db_after (return_book e d sess i))"
  by (auto simp: return_book_def login_required_def Let_def flag_inv_def set_stock_def
      split: option.splits if_splits)

lemma flag_inv_handle: "flag_inv d \<Longrightarrow> flag_inv (db_after (handle e d sess req))"
  by (cases req)
     (simp_all add: flag_inv_register flag_inv_login flag_inv_add_book flag_inv_edit_book
        flag_inv_delete_book flag_inv_borrow flag_inv_return_book,
      simp_all add: home_def logout_def dashboard_def books_def login_required_def Let_def
        split: option.splits)

lemma reachable_flag_inv: "reachable d \<Longrightarrow> flag_inv d"
  by (induction rule: reachable.induct) (simp_all add: flag_inv_def empty_db_def flag_inv_handle[unfolded flag_inv_def])















subsection \<open>Reachable sample states\<close>

lemma register_example:
  "db_after (register test_env empty_db None POST regform) = library [] []"
  by (simp add: register_def regform_def empty_db_def current_user_def insert_user_def
      next_id_def fixture_defs)

lemma reachable_registered: "reachable (library [] [])"
  using reachable.step[OF reachable.init, of test_env None "Req_register POST regform"]
  unfolding handle.simps register_example .

lemma add_book_example:
  "db_after (add_book test_env (library [] []) (Some 1) POST (bookform ''2'')) = library [dune 2 True] []"
  by (simp add: add_book_def login_required_def bookform_def insert_book_def next_id_def
      fixture_defs lookup_defs py_int_defs)

lemma reachable_library: "reachable (library [dune 2 True] [])"
  using reachable.step[OF reachable_registered, of test_env "Some 1" "Req_add_book POST (bookform ''2'')"]
  unfolding handle.simps add_book_example .

lemma borrow_example:
  "db_after (borrow test_env (library [dune 2 True] []) (Some 1) 1) =
     library [dune 1 True] [loan None]"
  by (simp add: borrow_def login_required_def set_stock_def next_id_def fixture_defs lookup_defs)

lemma reachable_library_loan: "reachable (library [dune 1 True] [loan None])"
  using reachable.step[OF reachable_library, of test_env "Some 1" "Req_borrow 1"]
  unfolding handle.simps borrow_example .

lemma edit_negative_example:
  "db_after (edit_book test_env (library [dune 1 True] [loan None]) (Some 1) 1 POST (bookform ''-1''))
     = library [dune (- 1) False] [loan None]"
  by (simp add: edit_book_def login_required_def bookform_def update_book_def
      fixture_defs lookup_defs py_int_defs)

lemma reachable_library_negative: "reachable (library [dune (- 1) False] [loan None])"
  using reachable.step[OF reachable_library_loan, of test_env "Some 1"
      "Req_edit_book 1 POST (bookform ''-1'')"]
  unfolding handle.simps edit_negative_example .

lemma return_example:
  "db_after (return_book test_env (library [dune (- 1) False] [loan None]) (Some 1) 1)
     = library [dune 0 True] [loan (Some 7)]"
  by (simp add: return_book_def login_required_def set_stock_def int64_ok_def
      fixture_defs lookup_defs)

lemma reachable_library_returned: "reachable (library [dune 0 True] [loan (Some 7)])"
  using reachable.step[OF reachable_library_negative, of test_env "Some 1" "Req_return_book 1"]
  unfolding handle.simps return_example .

lemma largest_quantity:
  "quantity_field test_env (Some ''9223372036854775807'') = Inr 9223372036854775807"
  by (simp add: py_int_defs)

lemma edit_largest_example:
  "db_after (edit_book test_env (library [dune 1 True] [loan None]) (Some 1) 1 POST
       (bookform ''9223372036854775807''))
     = library [dune 9223372036854775807 True] [loan None]"
  by (simp add: edit_book_def login_required_def bookform_def update_book_def largest_quantity
      int64_ok_def ann_def dune_def loan_def library_def lookup_defs)

lemma reachable_library_largest: "reachable (library [dune 9223372036854775807 True] [loan None])"
  using reachable.step[OF reachable_library_loan, of test_env "Some 1"
      "Req_edit_book 1 POST (bookform ''9223372036854775807'')"]
  unfolding handle.simps edit_largest_example .

subsection \<open>The availability flag after each operation\<close>

text \<open>
  C1, as stated, fails. \<open>return_book\<close> stores \<open>available = True\<close> without looking at the
  quantity, and no request on another book repairs that later. From the empty tables:
  register a user, add the book Dune with quantity 2, borrow it, edit its quantity to -1,
  return the loan. Dune is then stored with quantity 0 and the flag \<open>True\<close>. Adding a second
  book succeeds, and right after this add Dune still has quantity 0 and the flag \<open>True\<close>,
  which is not \<open>quantity > 0\<close>, although the last request was an add and not a return.
\<close>

theorem available_flag_counterexample:
  "reachable (library [dune 0 True] [loan (Some 7)])
   \<and> succeeded (add_book test_env (library [dune 0 True] [loan (Some 7)]) (Some 1) POST
        (emmaform ''1''))
   \<and> book_table (db_after (add_book test_env (library [dune 0 True] [loan (Some 7)]) (Some 1)
        POST (emmaform ''1''))) = [dune 0 True, emma 1 True]
   \<and> quantity (dune 0 True) = 0
   \<and> available (dune 0 True)
   \<and> available (dune 0 True) \<noteq> (0 < quantity (dune 0 True))"
proof -
  have e: "add_book test_env (library [dune 0 True] [loan (Some 7)]) (Some 1) POST (emmaform ''1'') =
      reply (library [dune 0 True, emma 1 True] [loan (Some 7)]) (Some 1) (Redirect ''books'')
        [(''Book added successfully.'', ''success'')]"
    by (simp add: add_book_def login_required_def emmaform_def insert_book_def next_id_def
        fixture_defs lookup_defs py_int_defs)
  have s: "succeeded (add_book test_env (library [dune 0 True] [loan (Some 7)]) (Some 1) POST
        (emmaform ''1''))"
    unfolding e by simp
  have t: "book_table (db_after (add_book test_env (library [dune 0 True] [loan (Some 7)]) (Some 1)
        POST (emmaform ''1''))) = [dune 0 True, emma 1 True]"
    unfolding e by (simp add: library_def)
  have q: "quantity (dune 0 True) = 0" and a: "available (dune 0 True)"
    and n: "available (dune 0 True) \<noteq> (0 < quantity (dune 0 True))"
    by (simp_all add: dune_def)
  show ?thesis
    using reachable_library_returned s t q a n by blast
qed

text \<open>
  C1, amended. In every state the application can reach, a book with a positive quantity is
  flagged available (the converse fails, as above). A successful add appends one book whose
  quantity is the submitted integer and whose flag is \<open>quantity > 0\<close>; a successful edit
  stores the submitted integer and the flag \<open>quantity > 0\<close> in the edited book; a successful
  borrow stores the quantity minus one and the flag \<open>quantity > 0\<close> for the new quantity in
  the borrowed book; a successful return stores the quantity plus one and the literal
  \<open>True\<close> in the returned book, whatever its quantity. Each of them leaves every other book as
  it is, so a flag \<open>True\<close> that a return has stored at a quantity not above 0 is not
  repaired by requests on other books.
\<close>

theorem available_flag_after_operations:
  assumes "reachable d"
  shows "(\<forall>b \<in> set (book_table d). 0 < quantity b \<longrightarrow> available b)
    \<and> (succeeded (add_book e d sess m frm) \<longrightarrow>
         (\<exists>t q. frm ''title'' = Some t \<and> quantity_field e (frm ''quantity'') = Inr q
            \<and> book_table (db_after (add_book e d sess m frm)) = book_table d @
                [\<lparr>bid = next_id (map bid (book_table d)), title = t, author = frm ''author'',
                  isbn = frm ''isbn'', quantity = q, available = (0 < q)\<rparr>]))
    \<and> (succeeded (edit_book e d sess k m' frm') \<longrightarrow>
         (\<exists>t q. frm' ''title'' = Some t \<and> quantity_field e (frm' ''quantity'') = Inr q
            \<and> book_table (db_after (edit_book e d sess k m' frm')) =
                map (\<lambda>x. if bid x = k
                  then x\<lparr>title := t, author := frm' ''author'', isbn := frm' ''isbn'',
                          quantity := q, available := (0 < q)\<rparr>
                  else x) (book_table d)))
    \<and> (succeeded (borrow e d sess k') \<longrightarrow>
         (\<exists>b. get_book d k' = Some b \<and> 0 < quantity b
            \<and> book_table (db_after (borrow e d sess k')) =
                map (\<lambda>x. if bid x = k'
                  then x\<lparr>quantity := quantity b - 1, available := (0 < quantity b - 1)\<rparr>
                  else x) (book_table d)))
    \<and> (succeeded (return_book e d sess i) \<longrightarrow>
         (\<exists>r b. get_borrow d i = Some r \<and> get_book d (book_id r) = Some b
            \<and> book_table (db_after (return_book e d sess i)) =
                map (\<lambda>x. if bid x = book_id r
                  then x\<lparr>quantity := quantity b + 1, available := True\<rparr>
                  else x) (book_table d)))"
proof (intro conjI impI)
  show "\<forall>b \<in> set (book_table d). 0 < quantity b \<longrightarrow> available b"
    using reachable_flag_inv[OF assms] by (simp add: flag_inv_def)
next
  assume "succeeded (add_book e d sess m frm)"
  from add_book_succeeded[OF this]
  show "\<exists>t q. frm ''title'' = Some t \<and> quantity_field e (frm ''quantity'') = Inr q
            \<and> book_table (db_after (add_book e d sess m frm)) = book_table d @
                [\<lparr>bid = next_id (map bid (book_table d)), title = t, author = frm ''author'',
                  isbn = frm ''isbn'', quantity = q, available = (0 < q)\<rparr>]"
    by blast
next
  assume "succeeded (edit_book e d sess k m' frm')"
  from edit_book_succeeded[OF this]
  show "\<exists>t q. frm' ''title'' = Some t \<and> quantity_field e (frm' ''quantity'') = Inr q
            \<and> book_table (db_after (edit_book e d sess k m' frm')) =
                map (\<lambda>x. if bid x = k
                  then x\<lparr>title := t, author := frm' ''author'', isbn := frm' ''isbn'',
                          quantity := q, available := (0 < q)\<rparr>
                  else x) (book_table d)"
    by blast
next
  assume "succeeded (borrow e d sess k')"
  from borrow_succeeded[OF this] obtain u b where
    h: "current_user d sess = Some u" "get_book d k' = Some b" "0 < quantity b"
    by blast
  have "b \<in> set (book_table d)"
    using get_book_SomeD[OF h(2)] by simp
  then have av: "available b"
    using reachable_flag_inv[OF assms] h(3) by (simp add: flag_inv_def)
  define nv where "nv = (0 < quantity b - 1)"
  have flag: "(if quantity b - 1 = 0 then False else available b) = nv"
    using av h(3) by (auto simp: nv_def)
  have "book_table (db_after (borrow e d sess k')) =
      map (\<lambda>x. if bid x = k' then x\<lparr>quantity := quantity b - 1, available := nv\<rparr> else x)
        (book_table d)"
    unfolding borrow_success[OF h] flag by (simp add: set_stock_def)
  then have "book_table (db_after (borrow e d sess k')) =
      map (\<lambda>x. if bid x = k'
        then x\<lparr>quantity := quantity b - 1, available := (0 < quantity b - 1)\<rparr> else x)
        (book_table d)"
    unfolding nv_def .
  with h(2,3)
  show "\<exists>b. get_book d k' = Some b \<and> 0 < quantity b
            \<and> book_table (db_after (borrow e d sess k')) =
                map (\<lambda>x. if bid x = k'
                  then x\<lparr>quantity := quantity b - 1, available := (0 < quantity b - 1)\<rparr>
                  else x) (book_table d)"
    by blast
next
  assume "succeeded (return_book e d sess i)"
  from return_book_succeeded[OF this] obtain u r b where
    h: "current_user d sess = Some u" "get_borrow d i = Some r" "returned_at r = None"
       "get_book d (book_id r) = Some b" "int64_ok (quantity b + 1)"
    by blast
  have "book_table (db_after (return_book e d sess i)) =
      map (\<lambda>x. if bid x = book_id r then x\<lparr>quantity := quantity b + 1, available := True\<rparr>
                else x) (book_table d)"
    unfolding return_book_success[OF h] by (simp add: set_stock_def)
  with h(2,4)
  show "\<exists>r b. get_borrow d i = Some r \<and> get_book d (book_id r) = Some b
            \<and> book_table (db_after (return_book e d sess i)) =
                map (\<lambda>x. if bid x = book_id r
                  then x\<lparr>quantity := quantity b + 1, available := True\<rparr>
                  else x) (book_table d)"
    by blast
qed

theorem available_flag_after_operations_witness:
  "reachable (library [dune (- 1) False] [loan None])
   \<and> succeeded (add_book test_env (library [dune (- 1) False] [loan None]) (Some 1) POST
        (emmaform ''0''))
   \<and> book_table (db_after (add_book test_env (library [dune (- 1) False] [loan None]) (Some 1)
        POST (emmaform ''0''))) = [dune (- 1) False, emma 0 False]
   \<and> succeeded (edit_book test_env (library [dune (- 1) False] [loan None]) (Some 1) 1 POST
        (bookform ''3''))
   \<and> book_table (db_after (edit_book test_env (library [dune (- 1) False] [loan None]) (Some 1) 1
        POST (bookform ''3''))) = [dune 3 True]
   \<and> succeeded (return_book test_env (library [dune (- 1) False] [loan None]) (Some 1) 1)
   \<and> book_table (db_after (return_book test_env (library [dune (- 1) False] [loan None])
        (Some 1) 1)) = [dune 0 True]
   \<and> reachable (library [dune 1 True] [loan None])
   \<and> succeeded (borrow test_env (library [dune 1 True] [loan None]) (Some 1) 1)
   \<and> book_table (db_after (borrow test_env (library [dune 1 True] [loan None]) (Some 1) 1))
        = [dune 0 False]
   \<and> dune 1 True \<in> set (book_table (library [dune 1 True] [loan None]))
   \<and> 0 < quantity (dune 1 True)
   \<and> available (dune 1 True)"
proof -
  let ?A = "library [dune (- 1) False] [loan None]"
  let ?B = "library [dune 1 True] [loan None]"
  note atA = available_flag_after_operations [OF reachable_library_negative,
      where e = test_env and sess = "Some 1" and m = POST and frm = "emmaform ''0''"
        and k = 1 and m' = POST and frm' = "bookform ''3''" and k' = 1 and i = 1]
  note atB = available_flag_after_operations [OF reachable_library_loan,
      where e = test_env and sess = "Some 1" and m = POST and frm = "emmaform ''0''"
        and k = 1 and m' = POST and frm' = "bookform ''3''" and k' = 1 and i = 1]
  have s1: "succeeded (add_book test_env ?A (Some 1) POST (emmaform ''0''))"
    by (simp add: succeeded_def add_book_def login_required_def insert_book_def emmaform_def
        fixture_defs lookup_defs py_int_defs)
  have s2: "succeeded (edit_book test_env ?A (Some 1) 1 POST (bookform ''3''))"
    by (simp add: succeeded_def edit_book_def login_required_def update_book_def bookform_def
        fixture_defs lookup_defs py_int_defs)
  have s3: "succeeded (borrow test_env ?B (Some 1) 1)"
    by (simp add: succeeded_def borrow_def login_required_def Let_def fixture_defs lookup_defs)
  have s4: "succeeded (return_book test_env ?A (Some 1) 1)"
    by (simp add: succeeded_def return_book_def login_required_def Let_def int64_ok_def
        fixture_defs lookup_defs)
  have t1: "book_table (db_after (add_book test_env ?A (Some 1) POST (emmaform ''0'')))
      = [dune (- 1) False, emma 0 False]"
  proof -
    from atA [THEN conjunct2, THEN conjunct1] s1 obtain t q where
      t: "emmaform ''0'' ''title'' = Some t"
      and q: "quantity_field test_env (emmaform ''0'' ''quantity'') = Inr q"
      and tbl: "book_table (db_after (add_book test_env ?A (Some 1) POST (emmaform ''0''))) =
        book_table ?A @
          [\<lparr>bid = next_id (map bid (book_table ?A)), title = t,
            author = emmaform ''0'' ''author'', isbn = emmaform ''0'' ''isbn'',
            quantity = q, available = (0 < q)\<rparr>]"
      by blast
    have "t = ''Emma''"
      using t by (simp add: emmaform_def)
    moreover have "q = 0"
      using q by (simp add: emmaform_def py_int_defs)
    ultimately show ?thesis
      unfolding tbl by (simp add: emmaform_def next_id_def fixture_defs)
  qed
  have t2: "book_table (db_after (edit_book test_env ?A (Some 1) 1 POST (bookform ''3'')))
      = [dune 3 True]"
  proof -
    from atA [THEN conjunct2, THEN conjunct2, THEN conjunct1] s2 obtain t q where
      t: "bookform ''3'' ''title'' = Some t"
      and q: "quantity_field test_env (bookform ''3'' ''quantity'') = Inr q"
      and tbl: "book_table (db_after (edit_book test_env ?A (Some 1) 1 POST (bookform ''3''))) =
        map (\<lambda>x. if bid x = 1
          then x\<lparr>title := t, author := bookform ''3'' ''author'', isbn := bookform ''3'' ''isbn'',
                  quantity := q, available := (0 < q)\<rparr>
          else x) (book_table ?A)"
      by blast
    have "t = ''Dune''"
      using t by (simp add: bookform_def)
    moreover have "q = 3"
      using q by (simp add: bookform_def py_int_defs)
    ultimately show ?thesis
      unfolding tbl by (simp add: bookform_def fixture_defs)
  qed
  have t3: "book_table (db_after (borrow test_env ?B (Some 1) 1)) = [dune 0 False]"
  proof -
    from atB [THEN conjunct2, THEN conjunct2, THEN conjunct2, THEN conjunct1] s3 obtain b where
      b: "get_book ?B 1 = Some b"
      and tbl: "book_table (db_after (borrow test_env ?B (Some 1) 1)) =
        map (\<lambda>x. if bid x = 1
          then x\<lparr>quantity := quantity b - 1, available := (0 < quantity b - 1)\<rparr>
          else x) (book_table ?B)"
      by blast
    have "b = dune 1 True"
      using b by (simp add: fixture_defs lookup_defs)
    then show ?thesis
      unfolding tbl by (simp add: fixture_defs)
  qed
  have t4: "book_table (db_after (return_book test_env ?A (Some 1) 1)) = [dune 0 True]"
  proof -
    from atA [THEN conjunct2, THEN conjunct2, THEN conjunct2, THEN conjunct2] s4 obtain r b where
      r: "get_borrow ?A 1 = Some r" and b: "get_book ?A (book_id r) = Some b"
      and tbl: "book_table (db_after (return_book test_env ?A (Some 1) 1)) =
        map (\<lambda>x. if bid x = book_id r
          then x\<lparr>quantity := quantity b + 1, available := True\<rparr>
          else x) (book_table ?A)"
      by blast
    have r': "r = loan None"
      using r by (simp add: fixture_defs lookup_defs)
    have "b = dune (- 1) False"
      using b unfolding r' by (simp add: fixture_defs lookup_defs)
    then show ?thesis
      unfolding tbl r' by (simp add: fixture_defs)
  qed
  have m: "dune 1 True \<in> set (book_table ?B)"
    by (simp add: library_def)
  have p: "0 < quantity (dune 1 True)"
    by (simp add: dune_def)
  have a: "available (dune 1 True)"
    using atB [THEN conjunct1] m p by blast
  show ?thesis
    by (intro conjI reachable_library_negative s1 t1 s2 t2 s4 t4 reachable_library_loan s3 t3 m p a)
qed

subsection \<open>The effect of a successful borrow\<close>

text \<open>
  C2. In every state the application can reach, a borrow call of a logged-in user on a
  book with quantity > 0 succeeds: the book's quantity goes down by exactly one, its flag
  is \<open>quantity > 0\<close> for the new quantity, and the borrow table gains exactly one record, with
  a fresh id, for the caller and this book, \<open>borrowed_at\<close> the current time and
  \<open>returned_at\<close> NULL. No other book and no user changes. (The code clears the flag only
  when the new quantity is 0 and leaves it alone otherwise; that this equals
  \<open>quantity > 0\<close> rests on the invariant \<open>flag_inv\<close> of the reachable states.)
\<close>

theorem borrow_effect:
  assumes "reachable d" and "current_user d sess = Some u" and "get_book d k = Some b"
    and "0 < quantity b"
  shows "outcome (borrow e d sess k) = Redirect ''books''
         \<and> flashed (borrow e d sess k) =
             [(''You borrowed '' @ [CHR 0x22] @ title b @ [CHR 0x22] @ ''.'', ''success'')]
         \<and> get_book (db_after (borrow e d sess k)) k =
             Some (b\<lparr>quantity := quantity b - 1, available := (0 < quantity b - 1)\<rparr>)
         \<and> (\<forall>j. j \<noteq> k \<longrightarrow> get_book (db_after (borrow e d sess k)) j = get_book d j)
         \<and> borrow_table (db_after (borrow e d sess k)) = borrow_table d @
             [\<lparr>rid = next_id (map rid (borrow_table d)), user_id = uid u, book_id = k,
               borrowed_at = now e, returned_at = None\<rparr>]
         \<and> next_id (map rid (borrow_table d)) \<notin> rid ` set (borrow_table d)
         \<and> user_table (db_after (borrow e d sess k)) = user_table d"
proof -
  have mem: "b \<in> set (book_table d)" and bk: "bid b = k"
    using get_book_SomeD[OF assms(3)] by simp_all
  have av: "available b"
    using reachable_flag_inv[OF assms(1)] mem assms(4) by (simp add: flag_inv_def)
  note s = borrow_success[OF assms(2,3,4), of e]
  define nv where "nv = (0 < quantity b - 1)"
  have flag: "(if quantity b - 1 = 0 then False else available b) = nv"
    using av assms(4) by (auto simp: nv_def)
  have g: "get_book (db_after (borrow e d sess k)) j =
      map_option (\<lambda>x. if bid x = k then x\<lparr>quantity := quantity b - 1, available := nv\<rparr> else x)
        (get_book d j)" for j
    unfolding s flag by (simp add: get_book_def set_stock_def find_map_upd[where key = bid])
  have other: "get_book (db_after (borrow e d sess k)) j = get_book d j" if "j \<noteq> k" for j
  proof (cases "get_book d j")
    case None then show ?thesis by (simp add: g)
  next
    case (Some x)
    then have "bid x = j" using get_book_SomeD by blast
    with Some that show ?thesis by (simp add: g)
  qed
  have fresh: "next_id (map rid (borrow_table d)) \<notin> rid ` set (borrow_table d)"
    using next_id_fresh[of "map rid (borrow_table d)"] by simp
  have tbl: "borrow_table (db_after (borrow e d sess k)) = borrow_table d @
             [\<lparr>rid = next_id (map rid (borrow_table d)), user_id = uid u, book_id = k,
               borrowed_at = now e, returned_at = None\<rparr>]"
    and usr: "user_table (db_after (borrow e d sess k)) = user_table d"
    and out: "outcome (borrow e d sess k) = Redirect ''books''"
    and fl: "flashed (borrow e d sess k) =
             [(''You borrowed '' @ [CHR 0x22] @ title b @ [CHR 0x22] @ ''.'', ''success'')]"
    unfolding s by (simp_all add: set_stock_def)
  have "get_book (db_after (borrow e d sess k)) k =
             Some (b\<lparr>quantity := quantity b - 1, available := nv\<rparr>)"
    using assms(3) bk by (simp add: g)
  then have gk: "get_book (db_after (borrow e d sess k)) k =
             Some (b\<lparr>quantity := quantity b - 1, available := (0 < quantity b - 1)\<rparr>)"
    unfolding nv_def .
  show ?thesis using out fl gk other tbl fresh usr by blast
qed

theorem borrow_effect_witness:
  "reachable (library [dune 2 True] [])
   \<and> current_user (library [dune 2 True] []) (Some 1) = Some ann
   \<and> get_book (library [dune 2 True] []) 1 = Some (dune 2 True)
   \<and> 0 < quantity (dune 2 True)
   \<and> db_after (borrow test_env (library [dune 2 True] []) (Some 1) 1) =
       library [dune 1 True]
         [\<lparr>rid = 1, user_id = 1, book_id = 1, borrowed_at = 7, returned_at = None\<rparr>]
   \<and> get_book (db_after (borrow test_env (library [dune 2 True] []) (Some 1) 1)) 1 =
       Some ((dune 2 True)\<lparr>quantity := quantity (dune 2 True) - 1,
                            available := (0 < quantity (dune 2 True) - 1)\<rparr>)"
proof -
  let ?d = "library [dune 2 True] []"
  have h1: "current_user ?d (Some 1) = Some ann"
    by (simp add: fixture_defs lookup_defs)
  have h2: "get_book ?d 1 = Some (dune 2 True)"
    by (simp add: fixture_defs lookup_defs)
  have h3: "0 < quantity (dune 2 True)"
    by (simp add: dune_def)
  have v: "db_after (borrow test_env ?d (Some 1) 1) =
       library [dune 1 True]
         [\<lparr>rid = 1, user_id = 1, book_id = 1, borrowed_at = 7, returned_at = None\<rparr>]"
    by (simp add: borrow_def login_required_def set_stock_def next_id_def fixture_defs lookup_defs)
  show ?thesis
    using borrow_effect [OF reachable_library h1 h2 h3, of test_env] reachable_library h1 h2 h3 v
    by blast
qed

subsection \<open>Borrowing a book that is out of stock\<close>

text \<open>
  C3. A logged-in user's borrow call on a book whose quantity is not greater than 0 ends
  in the message "Book not available." and a redirect to the book list; the stored tables
  are the same afterwards: no borrow record is added and the book keeps its quantity and
  its flag.
\<close>

theorem borrow_unavailable:
  assumes "current_user d sess = Some u" and "get_book d bk_id = Some b" and "quantity b \<le> 0"
  shows "borrow e d sess bk_id =
           reply d sess (Redirect ''books'') [(''Book not available.'', ''danger'')]
         \<and> db_after (borrow e d sess bk_id) = d"
  using assms by (simp add: borrow_def login_required_Some)

theorem borrow_unavailable_witness:
  "current_user (library [dune 0 False] []) (Some 1) = Some ann
   \<and> get_book (library [dune 0 False] []) 1 = Some (dune 0 False)
   \<and> quantity (dune 0 False) \<le> 0
   \<and> borrow test_env (library [dune 0 False] []) (Some 1) 1 =
       reply (library [dune 0 False] []) (Some 1) (Redirect ''books'')
         [(''Book not available.'', ''danger'')]
   \<and> db_after (borrow test_env (library [dune 0 False] []) (Some 1) 1) = library [dune 0 False] []"
proof -
  have h1: "current_user (library [dune 0 False] []) (Some 1) = Some ann"
    by (simp add: fixture_defs lookup_defs)
  have h2: "get_book (library [dune 0 False] []) 1 = Some (dune 0 False)"
    by (simp add: fixture_defs lookup_defs)
  have h3: "quantity (dune 0 False) \<le> 0"
    by (simp add: dune_def)
  show ?thesis
    using borrow_unavailable [OF h1 h2 h3, of test_env] h1 h2 h3 by blast
qed

subsection \<open>Returning twice\<close>

text \<open>
  C4. For a logged-in caller, \<open>return_book\<close> on a borrow record whose \<open>returned_at\<close> is set
  answers "This book is already returned." with a redirect, not an error, and changes
  nothing: neither the record nor any book. For an open record whose book exists, a second
  call on the same id leaves the tables of the first call as they are, so the quantity is
  never incremented twice; and after a first, successful return the second call is answered
  with "This book is already returned.".
\<close>

theorem return_book_already_returned:
  assumes "current_user d sess = Some u" and "get_borrow d br_id = Some r"
  shows "(returned_at r \<noteq> None \<longrightarrow>
            return_book e d sess br_id =
              reply d sess (Redirect ''dashboard'') [(''This book is already returned.'', ''info'')])
         \<and> (returned_at r = None \<longrightarrow> get_book d (book_id r) \<noteq> None \<longrightarrow>
            db_after (return_book e' (db_after (return_book e d sess br_id)) sess br_id)
              = db_after (return_book e d sess br_id)
            \<and> (succeeded (return_book e d sess br_id) \<longrightarrow>
                 return_book e' (db_after (return_book e d sess br_id)) sess br_id =
                   reply (db_after (return_book e d sess br_id)) sess (Redirect ''dashboard'')
                     [(''This book is already returned.'', ''info'')]))"
proof (intro conjI impI)
  assume "returned_at r \<noteq> None"
  with assms show "return_book e d sess br_id =
      reply d sess (Redirect ''dashboard'') [(''This book is already returned.'', ''info'')]"
    by (auto simp: return_book_def login_required_Some)
next
  assume opn: "returned_at r = None" and "get_book d (book_id r) \<noteq> None"
  then obtain b where b: "get_book d (book_id r) = Some b" by auto
  define d' where "d' = db_after (return_book e d sess br_id)"
  have twice: "db_after (return_book e' d' sess br_id) = d'
      \<and> (succeeded (return_book e d sess br_id) \<longrightarrow>
           return_book e' d' sess br_id =
             reply d' sess (Redirect ''dashboard'') [(''This book is already returned.'', ''info'')])"
  proof (cases "int64_ok (quantity b + 1)")
    case True
    note s = return_book_success[OF assms opn b True, of e]
    have rid: "rid r = br_id"
      using get_borrow_SomeD[OF assms(2)] by simp
    have users: "user_table d' = user_table d"
      by (simp add: d'_def s set_stock_def)
    have row: "get_borrow d' br_id = Some (r\<lparr>returned_at := Some (now e)\<rparr>)"
      using assms(2) rid
      by (simp add: d'_def s set_stock_def get_borrow_def find_map_upd[where key = rid])
    have "current_user d' sess = Some u"
      using assms(1) current_user_cong[OF users] by simp
    with row have "return_book e' d' sess br_id =
        reply d' sess (Redirect ''dashboard'') [(''This book is already returned.'', ''info'')]"
      by (simp add: return_book_def login_required_Some)
    then show ?thesis by simp
  next
    case False
    have first: "return_book e d sess br_id = reply d sess (Crash OverflowError) []"
      by (rule return_book_overflow[OF assms opn b False])
    have second: "return_book e' d sess br_id = reply d sess (Crash OverflowError) []"
      by (rule return_book_overflow[OF assms opn b False])
    show ?thesis
      by (simp add: d'_def first second)
  qed
  from twice show "db_after (return_book e' (db_after (return_book e d sess br_id)) sess br_id)
      = db_after (return_book e d sess br_id)"
    unfolding d'_def by blast
  assume "succeeded (return_book e d sess br_id)"
  with twice show "return_book e' (db_after (return_book e d sess br_id)) sess br_id =
      reply (db_after (return_book e d sess br_id)) sess (Redirect ''dashboard'')
        [(''This book is already returned.'', ''info'')]"
    unfolding d'_def by blast
qed

theorem return_book_already_returned_witness:
  "current_user (library [dune 1 True] [loan (Some 7)]) (Some 1) = Some ann
   \<and> get_borrow (library [dune 1 True] [loan (Some 7)]) 1 = Some (loan (Some 7))
   \<and> returned_at (loan (Some 7)) \<noteq> None
   \<and> return_book test_env (library [dune 1 True] [loan (Some 7)]) (Some 1) 1 =
       reply (library [dune 1 True] [loan (Some 7)]) (Some 1) (Redirect ''dashboard'')
         [(''This book is already returned.'', ''info'')]
   \<and> current_user (library [dune 0 False] [loan None]) (Some 1) = Some ann
   \<and> get_borrow (library [dune 0 False] [loan None]) 1 = Some (loan None)
   \<and> returned_at (loan None) = None
   \<and> get_book (library [dune 0 False] [loan None]) (book_id (loan None)) \<noteq> None
   \<and> succeeded (return_book test_env (library [dune 0 False] [loan None]) (Some 1) 1)
   \<and> db_after (return_book test_env (library [dune 0 False] [loan None]) (Some 1) 1)
        = library [dune 1 True] [loan (Some 7)]
   \<and> db_after (return_book test_env
         (db_after (return_book test_env (library [dune 0 False] [loan None]) (Some 1) 1))
         (Some 1) 1) = library [dune 1 True] [loan (Some 7)]
   \<and> outcome (return_book test_env
         (db_after (return_book test_env (library [dune 0 False] [loan None]) (Some 1) 1))
         (Some 1) 1) = Redirect ''dashboard''
   \<and> flashed (return_book test_env
         (db_after (return_book test_env (library [dune 0 False] [loan None]) (Some 1) 1))
         (Some 1) 1) = [(''This book is already returned.'', ''info'')]"
proof -
  let ?d = "library [dune 0 False] [loan None]"
  let ?d' = "library [dune 1 True] [loan (Some 7)]"
  have h1: "current_user ?d (Some 1) = Some ann"
    by (simp add: fixture_defs lookup_defs)
  have h2: "get_borrow ?d 1 = Some (loan None)"
    by (simp add: fixture_defs lookup_defs)
  have h3: "returned_at (loan None) = None"
    by (simp add: loan_def)
  have h4: "get_book ?d (book_id (loan None)) \<noteq> None"
    by (simp add: fixture_defs lookup_defs)
  have h5: "db_after (return_book test_env ?d (Some 1) 1) = ?d'"
    by (simp add: return_book_def login_required_def set_stock_def int64_ok_def
        fixture_defs lookup_defs)
  have h6: "succeeded (return_book test_env ?d (Some 1) 1)"
    by (simp add: succeeded_def return_book_def login_required_def Let_def int64_ok_def
        fixture_defs lookup_defs)
  have k1: "current_user ?d' (Some 1) = Some ann"
    by (simp add: fixture_defs lookup_defs)
  have k2: "get_borrow ?d' 1 = Some (loan (Some 7))"
    by (simp add: fixture_defs lookup_defs)
  have k3: "returned_at (loan (Some 7)) \<noteq> None"
    by (simp add: loan_def)
  have first: "return_book test_env ?d' (Some 1) 1 =
      reply ?d' (Some 1) (Redirect ''dashboard'') [(''This book is already returned.'', ''info'')]"
    using return_book_already_returned [OF k1 k2, of test_env] k3 by blast
  note open_row = return_book_already_returned [OF h1 h2, of test_env test_env, THEN conjunct2,
      rule_format, OF h3 h4]
  have second: "db_after (return_book test_env (db_after (return_book test_env ?d (Some 1) 1))
      (Some 1) 1) = db_after (return_book test_env ?d (Some 1) 1)"
    using open_row by blast
  have answer: "return_book test_env (db_after (return_book test_env ?d (Some 1) 1)) (Some 1) 1 =
      reply (db_after (return_book test_env ?d (Some 1) 1)) (Some 1) (Redirect ''dashboard'')
        [(''This book is already returned.'', ''info'')]"
    using open_row h6 by blast
  have second': "db_after (return_book test_env (db_after (return_book test_env ?d (Some 1) 1))
      (Some 1) 1) = ?d'"
    using second unfolding h5 .
  have out: "outcome (return_book test_env (db_after (return_book test_env ?d (Some 1) 1))
      (Some 1) 1) = Redirect ''dashboard''"
    and fl: "flashed (return_book test_env (db_after (return_book test_env ?d (Some 1) 1))
      (Some 1) 1) = [(''This book is already returned.'', ''info'')]"
    unfolding answer by simp_all
  show ?thesis
    by (intro conjI k1 k2 k3 first h1 h2 h3 h4 h6 h5 second' out fl)
qed

subsection \<open>Returning an open borrow record\<close>

text \<open>
  C5, as stated, fails at the largest quantity the storage holds. With the quantity of Dune
  edited to 9223372036854775807 (which is \<open>2^63 - 1\<close>) while a loan of it is open,
  \<open>return_book\<close> on that loan computes the quantity plus one, the commit raises
  \<open>OverflowError\<close>, and nothing is stored: neither the timestamp nor the quantity nor the
  flag.
\<close>

theorem return_book_overflow_counterexample:
  "reachable (library [dune 9223372036854775807 True] [loan None])
   \<and> current_user (library [dune 9223372036854775807 True] [loan None]) (Some 1) = Some ann
   \<and> get_borrow (library [dune 9223372036854775807 True] [loan None]) 1 = Some (loan None)
   \<and> returned_at (loan None) = None
   \<and> get_book (library [dune 9223372036854775807 True] [loan None]) (book_id (loan None))
        = Some (dune 9223372036854775807 True)
   \<and> return_book test_env (library [dune 9223372036854775807 True] [loan None]) (Some 1) 1 =
       reply (library [dune 9223372036854775807 True] [loan None]) (Some 1)
         (Crash OverflowError) []
   \<and> get_borrow (db_after (return_book test_env
         (library [dune 9223372036854775807 True] [loan None]) (Some 1) 1)) 1 = Some (loan None)"
proof -
  let ?d = "library [dune 9223372036854775807 True] [loan None]"
  have h1: "current_user ?d (Some 1) = Some ann"
    by (simp add: fixture_defs lookup_defs)
  have h2: "get_borrow ?d 1 = Some (loan None)"
    by (simp add: fixture_defs lookup_defs)
  have h3: "returned_at (loan None) = None"
    by (simp add: loan_def)
  have h4: "get_book ?d (book_id (loan None)) = Some (dune 9223372036854775807 True)"
    by (simp add: fixture_defs lookup_defs)
  have r: "return_book test_env ?d (Some 1) 1 = reply ?d (Some 1) (Crash OverflowError) []"
    by (simp add: return_book_def login_required_def int64_ok_def fixture_defs lookup_defs)
  have g: "get_borrow (db_after (return_book test_env ?d (Some 1) 1)) 1 = Some (loan None)"
    unfolding r reply_sel by (rule h2)
  show ?thesis
    by (intro conjI reachable_library_largest h1 h2 h3 h4 r g)
qed

text \<open>
  C5, amended. For a logged-in caller, \<open>return_book\<close> on an open borrow record (\<open>returned_at\<close>
  NULL) whose book exists: when the quantity plus one is in the 64-bit range of the storage,
  the call stores the current time in \<open>returned_at\<close> of that record, adds exactly one to the
  quantity of the referenced book and stores \<open>available = True\<close> as a constant, whatever the
  quantity is, and no other borrow record, book or user changes; otherwise the call ends in
  an uncaught \<open>OverflowError\<close> and stores nothing. (That the timestamp is written at most
  once is the first part of C4: a record that carries one is not written again.)
\<close>

theorem return_book_effect:
  assumes "current_user d sess = Some u" and "get_borrow d br_id = Some r"
    and "returned_at r = None" and "get_book d (book_id r) = Some b"
  shows "(int64_ok (quantity b + 1) \<longrightarrow>
           outcome (return_book e d sess br_id) = Redirect ''dashboard''
         \<and> flashed (return_book e d sess br_id) =
             [(''Book '' @ [CHR 0x22] @ title b @ [CHR 0x22] @ '' returned successfully.'', ''success'')]
         \<and> get_borrow (db_after (return_book e d sess br_id)) br_id
             = Some (r\<lparr>returned_at := Some (now e)\<rparr>)
         \<and> get_book (db_after (return_book e d sess br_id)) (book_id r)
             = Some (b\<lparr>quantity := quantity b + 1, available := True\<rparr>)
         \<and> (\<forall>i. i \<noteq> br_id \<longrightarrow> get_borrow (db_after (return_book e d sess br_id)) i = get_borrow d i)
         \<and> (\<forall>k. k \<noteq> book_id r \<longrightarrow> get_book (db_after (return_book e d sess br_id)) k = get_book d k)
         \<and> user_table (db_after (return_book e d sess br_id)) = user_table d)
       \<and> (\<not> int64_ok (quantity b + 1) \<longrightarrow>
           return_book e d sess br_id = reply d sess (Crash OverflowError) [])"
proof (intro conjI impI)
  assume "\<not> int64_ok (quantity b + 1)"
  then show "return_book e d sess br_id = reply d sess (Crash OverflowError) []"
    by (rule return_book_overflow[OF assms])
next
  assume ok: "int64_ok (quantity b + 1)"
  have rid: "rid r = br_id"
    using get_borrow_SomeD[OF assms(2)] by simp
  have bid: "bid b = book_id r"
    using get_book_SomeD[OF assms(4)] by simp
  note eq = return_book_success[OF assms ok, of e]
  have g1: "get_borrow (db_after (return_book e d sess br_id)) i =
     map_option (\<lambda>x. if rid x = br_id then x\<lparr>returned_at := Some (now e)\<rparr> else x) (get_borrow d i)" for i
    unfolding eq by (simp add: set_stock_def get_borrow_def find_map_upd[where key = rid])
  have g2: "get_book (db_after (return_book e d sess br_id)) k =
     map_option (\<lambda>x. if bid x = book_id r then x\<lparr>quantity := quantity b + 1, available := True\<rparr> else x) (get_book d k)" for k
    unfolding eq by (simp add: set_stock_def get_book_def find_map_upd[where key = bid])
  have other_r: "get_borrow (db_after (return_book e d sess br_id)) i = get_borrow d i" if "i \<noteq> br_id" for i
  proof (cases "get_borrow d i")
    case None then show ?thesis by (simp add: g1)
  next
    case (Some x)
    then have "rid x = i" using get_borrow_SomeD by blast
    with Some that show ?thesis by (simp add: g1)
  qed
  have other_b: "get_book (db_after (return_book e d sess br_id)) k = get_book d k" if "k \<noteq> book_id r" for k
  proof (cases "get_book d k")
    case None then show ?thesis by (simp add: g2)
  next
    case (Some x)
    then have "bid x = k" using get_book_SomeD by blast
    with Some that show ?thesis by (simp add: g2)
  qed
  show "outcome (return_book e d sess br_id) = Redirect ''dashboard''"
    unfolding eq by simp
  show "flashed (return_book e d sess br_id) =
      [(''Book '' @ [CHR 0x22] @ title b @ [CHR 0x22] @ '' returned successfully.'', ''success'')]"
    unfolding eq by simp
  show "get_borrow (db_after (return_book e d sess br_id)) br_id
      = Some (r\<lparr>returned_at := Some (now e)\<rparr>)"
    using assms(2) rid by (simp add: g1)
  show "get_book (db_after (return_book e d sess br_id)) (book_id r)
      = Some (b\<lparr>quantity := quantity b + 1, available := True\<rparr>)"
    using assms(4) bid by (simp add: g2)
  show "\<forall>i. i \<noteq> br_id \<longrightarrow> get_borrow (db_after (return_book e d sess br_id)) i = get_borrow d i"
    using other_r by blast
  show "\<forall>k. k \<noteq> book_id r \<longrightarrow> get_book (db_after (return_book e d sess br_id)) k = get_book d k"
    using other_b by blast
  show "user_table (db_after (return_book e d sess br_id)) = user_table d"
    unfolding eq by (simp add: set_stock_def)
qed

theorem return_book_effect_witness:
  "current_user (library [dune 0 False, emma 1 True] [loan None]) (Some 1) = Some ann
   \<and> get_borrow (library [dune 0 False, emma 1 True] [loan None]) 1 = Some (loan None)
   \<and> returned_at (loan None) = None
   \<and> get_book (library [dune 0 False, emma 1 True] [loan None]) (book_id (loan None))
        = Some (dune 0 False)
   \<and> int64_ok (quantity (dune 0 False) + 1)
   \<and> get_borrow (db_after (return_book test_env (library [dune 0 False, emma 1 True] [loan None])
         (Some 1) 1)) 1 = Some (loan (Some 7))
   \<and> get_book (db_after (return_book test_env (library [dune 0 False, emma 1 True] [loan None])
         (Some 1) 1)) 1 = Some (dune 1 True)
   \<and> get_book (db_after (return_book test_env (library [dune 0 False, emma 1 True] [loan None])
         (Some 1) 1)) 2 = Some (emma 1 True)
   \<and> current_user (library [dune 9223372036854775807 True] [loan None]) (Some 1) = Some ann
   \<and> get_borrow (library [dune 9223372036854775807 True] [loan None]) 1 = Some (loan None)
   \<and> get_book (library [dune 9223372036854775807 True] [loan None]) (book_id (loan None))
        = Some (dune 9223372036854775807 True)
   \<and> \<not> int64_ok (quantity (dune 9223372036854775807 True) + 1)
   \<and> return_book test_env (library [dune 9223372036854775807 True] [loan None]) (Some 1) 1 =
       reply (library [dune 9223372036854775807 True] [loan None]) (Some 1)
         (Crash OverflowError) []"
proof -
  let ?d = "library [dune 0 False, emma 1 True] [loan None]"
  let ?m = "library [dune 9223372036854775807 True] [loan None]"
  have h1: "current_user ?d (Some 1) = Some ann"
    by (simp add: fixture_defs lookup_defs)
  have h2: "get_borrow ?d 1 = Some (loan None)"
    by (simp add: fixture_defs lookup_defs)
  have h3: "returned_at (loan None) = None"
    by (simp add: loan_def)
  have h4: "get_book ?d (book_id (loan None)) = Some (dune 0 False)"
    by (simp add: fixture_defs lookup_defs)
  have h5: "int64_ok (quantity (dune 0 False) + 1)"
    by (simp add: dune_def int64_ok_def)
  have v1: "(loan None)\<lparr>returned_at := Some (now test_env)\<rparr> = loan (Some 7)"
    by (simp add: loan_def test_env_def)
  have v2: "(dune 0 False)\<lparr>quantity := quantity (dune 0 False) + 1, available := True\<rparr> = dune 1 True"
    by (simp add: dune_def)
  have v3: "book_id (loan None) = 1"
    by (simp add: loan_def)
  have v4: "get_book ?d 2 = Some (emma 1 True)"
    by (simp add: fixture_defs lookup_defs)
  note ok = return_book_effect [OF h1 h2 h3 h4, of test_env, THEN conjunct1, rule_format, OF h5]
  have w1: "get_borrow (db_after (return_book test_env ?d (Some 1) 1)) 1 = Some (loan (Some 7))"
    using ok v1 by simp
  have w2: "get_book (db_after (return_book test_env ?d (Some 1) 1)) 1 = Some (dune 1 True)"
    using ok v2 v3 by simp
  have "get_book (db_after (return_book test_env ?d (Some 1) 1)) 2 = get_book ?d 2"
    using ok v3 by simp
  then have w3: "get_book (db_after (return_book test_env ?d (Some 1) 1)) 2 = Some (emma 1 True)"
    unfolding v4 .
  have m1: "current_user ?m (Some 1) = Some ann"
    by (simp add: fixture_defs lookup_defs)
  have m2: "get_borrow ?m 1 = Some (loan None)"
    by (simp add: fixture_defs lookup_defs)
  have m4: "get_book ?m (book_id (loan None)) = Some (dune 9223372036854775807 True)"
    by (simp add: fixture_defs lookup_defs)
  have m5: "\<not> int64_ok (quantity (dune 9223372036854775807 True) + 1)"
    by (simp add: dune_def int64_ok_def)
  have w4: "return_book test_env ?m (Some 1) 1 = reply ?m (Some 1) (Crash OverflowError) []"
    using return_book_effect [OF m1 m2 h3 m4, of test_env, THEN conjunct2] m5 by blast
  show ?thesis
    by (intro conjI h1 h2 h3 h4 h5 w1 w2 w3 m1 m2 m4 m5 w4)
qed

subsection \<open>Quantities below zero\<close>

text \<open>
  C6, as stated, fails: \<open>add_book\<close> (and \<open>edit_book\<close>) store whatever integer
  \<open>int(...)\<close> reads from the form, and nothing rejects a negative one. From the empty tables,
  after registering one user, adding a book with the quantity field \<open>-3\<close> succeeds and
  stores the quantity -3.
\<close>

theorem negative_quantity_counterexample:
  "reachable (library [] [])
   \<and> succeeded (add_book test_env (library [] []) (Some 1) POST (bookform ''-3''))
   \<and> book_table (db_after (add_book test_env (library [] []) (Some 1) POST (bookform ''-3'')))
        = [dune (- 3) False]
   \<and> quantity (dune (- 3) False) < 0
   \<and> \<not> nonneg_inv (db_after (add_book test_env (library [] []) (Some 1) POST (bookform ''-3'')))"
proof -
  have e: "add_book test_env (library [] []) (Some 1) POST (bookform ''-3'') =
      reply (library [dune (- 3) False] []) (Some 1) (Redirect ''books'')
        [(''Book added successfully.'', ''success'')]"
    by (simp add: add_book_def login_required_def bookform_def insert_book_def next_id_def
        fixture_defs lookup_defs py_int_defs)
  have s: "succeeded (add_book test_env (library [] []) (Some 1) POST (bookform ''-3''))"
    unfolding e by simp
  have t: "book_table (db_after (add_book test_env (library [] []) (Some 1) POST (bookform ''-3'')))
        = [dune (- 3) False]"
    unfolding e by (simp add: library_def)
  have q: "quantity (dune (- 3) False) < 0"
    by (simp add: dune_def)
  have n: "\<not> nonneg_inv (db_after (add_book test_env (library [] []) (Some 1) POST (bookform ''-3'')))"
    unfolding nonneg_inv_def t by (simp add: dune_def)
  show ?thesis
    using reachable_registered s t q n by blast
qed

text \<open>
  C6, amended. Borrow, return and delete never make a quantity negative: if no book has a
  negative quantity before, none has after. A successful add stores exactly the integer that
  \<open>int\<close> reads from the quantity field (1 when the field is missing or empty) as the
  quantity of the new book, and a successful edit stores it as the quantity of the edited
  book, the other quantities unchanged and without a lower bound; so, starting without
  negative quantities, there is none afterwards if and only if the submitted integer is not
  negative. An add or edit that does not succeed changes nothing.
\<close>

theorem quantity_stays_nonnegative:
  assumes "nonneg_inv d"
  shows "nonneg_inv (db_after (borrow e d sess k))
    \<and> nonneg_inv (db_after (return_book e d sess i))
    \<and> nonneg_inv (db_after (delete_book d sess k'))
    \<and> (succeeded (add_book e d sess m frm) \<longrightarrow>
         (\<exists>q. quantity_field e (frm ''quantity'') = Inr q
            \<and> map quantity (book_table (db_after (add_book e d sess m frm)))
                 = map quantity (book_table d) @ [q]
            \<and> nonneg_inv (db_after (add_book e d sess m frm)) = (0 \<le> q)))
    \<and> (\<not> succeeded (add_book e d sess m frm) \<longrightarrow> db_after (add_book e d sess m frm) = d)
    \<and> (succeeded (edit_book e d sess k'' m' frm') \<longrightarrow>
         (\<exists>q. quantity_field e (frm' ''quantity'') = Inr q
            \<and> map quantity (book_table (db_after (edit_book e d sess k'' m' frm')))
                 = map (\<lambda>b. if bid b = k'' then q else quantity b) (book_table d)
            \<and> nonneg_inv (db_after (edit_book e d sess k'' m' frm')) = (0 \<le> q)))
    \<and> (\<not> succeeded (edit_book e d sess k'' m' frm') \<longrightarrow>
         db_after (edit_book e d sess k'' m' frm') = d)"
proof (intro conjI impI)
  show "nonneg_inv (db_after (borrow e d sess k))"
    using assms
    by (auto simp: borrow_def login_required_def Let_def nonneg_inv_def set_stock_def
        split: option.splits if_splits)
  show "nonneg_inv (db_after (return_book e d sess i))"
    using assms
    by (auto simp: return_book_def login_required_def Let_def nonneg_inv_def set_stock_def
        dest!: get_book_SomeD split: option.splits if_splits)
  show "nonneg_inv (db_after (delete_book d sess k'))"
    using assms
    by (auto simp: delete_book_def login_required_def nonneg_inv_def split: option.splits)
next
  assume "succeeded (add_book e d sess m frm)"
  from add_book_succeeded[OF this] obtain t q where
    q: "quantity_field e (frm ''quantity'') = Inr q"
    and tbl: "book_table (db_after (add_book e d sess m frm)) = book_table d @
              [\<lparr>bid = next_id (map bid (book_table d)), title = t, author = frm ''author'',
                isbn = frm ''isbn'', quantity = q, available = (0 < q)\<rparr>]"
    by blast
  have qs: "map quantity (book_table (db_after (add_book e d sess m frm)))
      = map quantity (book_table d) @ [q]"
    unfolding tbl by simp
  have inv: "nonneg_inv (db_after (add_book e d sess m frm)) = (0 \<le> q)"
    using assms unfolding nonneg_inv_def tbl by auto
  from q qs inv
  show "\<exists>q. quantity_field e (frm ''quantity'') = Inr q
            \<and> map quantity (book_table (db_after (add_book e d sess m frm)))
                 = map quantity (book_table d) @ [q]
            \<and> nonneg_inv (db_after (add_book e d sess m frm)) = (0 \<le> q)"
    by blast
next
  assume "\<not> succeeded (add_book e d sess m frm)"
  then show "db_after (add_book e d sess m frm) = d"
    by (rule add_book_not_succeeded)
next
  assume "succeeded (edit_book e d sess k'' m' frm')"
  from edit_book_succeeded[OF this] obtain t q b0 where
    q: "quantity_field e (frm' ''quantity'') = Inr q"
    and b0: "get_book d k'' = Some b0"
    and tbl: "book_table (db_after (edit_book e d sess k'' m' frm')) = map (\<lambda>b. if bid b = k''
               then b\<lparr>title := t, author := frm' ''author'', isbn := frm' ''isbn'',
                       quantity := q, available := (0 < q)\<rparr>
               else b) (book_table d)"
    by blast
  have mem: "b0 \<in> set (book_table d)" and key: "bid b0 = k''"
    using get_book_SomeD[OF b0] by simp_all
  have qs: "map quantity (book_table (db_after (edit_book e d sess k'' m' frm')))
      = map (\<lambda>b. if bid b = k'' then q else quantity b) (book_table d)"
    unfolding tbl by simp
  have "nonneg_inv (db_after (edit_book e d sess k'' m' frm'))
      = (\<forall>x \<in> set (map quantity (book_table (db_after (edit_book e d sess k'' m' frm')))). 0 \<le> x)"
    by (simp add: nonneg_inv_def)
  then have all: "nonneg_inv (db_after (edit_book e d sess k'' m' frm'))
      = (\<forall>b \<in> set (book_table d). 0 \<le> (if bid b = k'' then q else quantity b))"
    unfolding qs by auto
  have inv: "nonneg_inv (db_after (edit_book e d sess k'' m' frm')) = (0 \<le> q)"
  proof
    assume "nonneg_inv (db_after (edit_book e d sess k'' m' frm'))"
    with all mem have "0 \<le> (if bid b0 = k'' then q else quantity b0)"
      by blast
    with key show "0 \<le> q" by simp
  next
    assume "0 \<le> q"
    with assms show "nonneg_inv (db_after (edit_book e d sess k'' m' frm'))"
      unfolding all by (simp add: nonneg_inv_def)
  qed
  from q qs inv
  show "\<exists>q. quantity_field e (frm' ''quantity'') = Inr q
            \<and> map quantity (book_table (db_after (edit_book e d sess k'' m' frm')))
                 = map (\<lambda>b. if bid b = k'' then q else quantity b) (book_table d)
            \<and> nonneg_inv (db_after (edit_book e d sess k'' m' frm')) = (0 \<le> q)"
    by blast
next
  assume "\<not> succeeded (edit_book e d sess k'' m' frm')"
  then show "db_after (edit_book e d sess k'' m' frm') = d"
    by (rule edit_book_not_succeeded)
qed

theorem quantity_stays_nonnegative_witness:
  "nonneg_inv (library [dune 1 True] [loan None])
   \<and> map quantity (book_table (db_after
        (borrow test_env (library [dune 1 True] [loan None]) (Some 1) 1))) = [0]
   \<and> nonneg_inv (db_after (borrow test_env (library [dune 1 True] [loan None]) (Some 1) 1))
   \<and> map quantity (book_table (db_after
        (return_book test_env (library [dune 1 True] [loan None]) (Some 1) 1))) = [2]
   \<and> nonneg_inv (db_after (return_book test_env (library [dune 1 True] [loan None]) (Some 1) 1))
   \<and> succeeded (add_book test_env (library [dune 1 True] [loan None]) (Some 1) POST
        (emmaform ''0''))
   \<and> map quantity (book_table (db_after (add_book test_env (library [dune 1 True] [loan None])
        (Some 1) POST (emmaform ''0'')))) = [1, 0]
   \<and> nonneg_inv (db_after (add_book test_env (library [dune 1 True] [loan None]) (Some 1) POST
        (emmaform ''0'')))
   \<and> succeeded (edit_book test_env (library [dune 1 True] [loan None]) (Some 1) 1 POST
        (bookform ''-1''))
   \<and> map quantity (book_table (db_after (edit_book test_env (library [dune 1 True] [loan None])
        (Some 1) 1 POST (bookform ''-1'')))) = [- 1]
   \<and> \<not> nonneg_inv (db_after (edit_book test_env (library [dune 1 True] [loan None]) (Some 1) 1
        POST (bookform ''-1'')))
   \<and> \<not> succeeded (add_book test_env (library [dune 1 True] [loan None]) (Some 1) POST
        (bookform ''5''))
   \<and> db_after (add_book test_env (library [dune 1 True] [loan None]) (Some 1) POST
        (bookform ''5'')) = library [dune 1 True] [loan None]
   \<and> \<not> succeeded (edit_book test_env (library [dune 1 True] [loan None]) (Some 1) 1 POST
        (bookform ''abc''))
   \<and> db_after (edit_book test_env (library [dune 1 True] [loan None]) (Some 1) 1 POST
        (bookform ''abc'')) = library [dune 1 True] [loan None]
   \<and> nonneg_inv (library [dune 1 True, emma 0 False] [])
   \<and> book_table (db_after (delete_book (library [dune 1 True, emma 0 False] []) (Some 1) 1))
        = [emma 0 False]
   \<and> nonneg_inv (db_after (delete_book (library [dune 1 True, emma 0 False] []) (Some 1) 1))"
proof -
  let ?d = "library [dune 1 True] [loan None]"
  let ?c = "library [dune 1 True, emma 0 False] []"
  have h: "nonneg_inv ?d"
    by (simp add: nonneg_inv_def fixture_defs)
  have hc: "nonneg_inv ?c"
    by (simp add: nonneg_inv_def fixture_defs)
  note good = quantity_stays_nonnegative [OF h, where e = test_env and sess = "Some 1"
      and k = 1 and i = 1 and k' = 1 and m = POST and frm = "emmaform ''0''" and k'' = 1
      and m' = POST and frm' = "bookform ''-1''"]
  note bad = quantity_stays_nonnegative [OF h, where e = test_env and sess = "Some 1"
      and k = 1 and i = 1 and k' = 1 and m = POST and frm = "bookform ''5''" and k'' = 1
      and m' = POST and frm' = "bookform ''abc''"]
  note del = quantity_stays_nonnegative [OF hc, where e = test_env and sess = "Some 1"
      and k = 1 and i = 1 and k' = 1 and m = POST and frm = "emmaform ''0''" and k'' = 1
      and m' = POST and frm' = "bookform ''-1''"]
  have b1: "map quantity (book_table (db_after (borrow test_env ?d (Some 1) 1))) = [0]"
    by (simp add: borrow_def login_required_def set_stock_def fixture_defs lookup_defs)
  have b2: "nonneg_inv (db_after (borrow test_env ?d (Some 1) 1))"
    by (rule good [THEN conjunct1])
  have r1: "map quantity (book_table (db_after (return_book test_env ?d (Some 1) 1))) = [2]"
    by (simp add: return_book_def login_required_def set_stock_def int64_ok_def
        fixture_defs lookup_defs)
  have r2: "nonneg_inv (db_after (return_book test_env ?d (Some 1) 1))"
    by (rule good [THEN conjunct2, THEN conjunct1])
  have s1: "succeeded (add_book test_env ?d (Some 1) POST (emmaform ''0''))"
    by (simp add: succeeded_def add_book_def login_required_def insert_book_def emmaform_def
        fixture_defs lookup_defs py_int_defs)
  have q0: "quantity_field test_env (emmaform ''0'' ''quantity'') = Inr 0"
    by (simp add: emmaform_def py_int_defs)
  have t0: "map quantity (book_table ?d) = [1]"
    by (simp add: fixture_defs)
  from good [THEN conjunct2, THEN conjunct2, THEN conjunct2, THEN conjunct1] s1 obtain q where
    q: "quantity_field test_env (emmaform ''0'' ''quantity'') = Inr q"
    and qs: "map quantity (book_table (db_after (add_book test_env ?d (Some 1) POST (emmaform ''0''))))
        = map quantity (book_table ?d) @ [q]"
    and inv: "nonneg_inv (db_after (add_book test_env ?d (Some 1) POST (emmaform ''0''))) = (0 \<le> q)"
    by blast
  have qv: "q = 0"
    using q unfolding q0 by simp
  have a1: "map quantity (book_table (db_after (add_book test_env ?d (Some 1) POST (emmaform ''0''))))
      = [1, 0]"
    unfolding qs t0 qv by simp
  have a2: "nonneg_inv (db_after (add_book test_env ?d (Some 1) POST (emmaform ''0'')))"
    unfolding inv qv by simp
  have s2: "succeeded (edit_book test_env ?d (Some 1) 1 POST (bookform ''-1''))"
    by (simp add: succeeded_def edit_book_def login_required_def update_book_def bookform_def
        fixture_defs lookup_defs py_int_defs)
  have qm: "quantity_field test_env (bookform ''-1'' ''quantity'') = Inr (- 1)"
    by (simp add: bookform_def py_int_defs)
  from good [THEN conjunct2, THEN conjunct2, THEN conjunct2, THEN conjunct2, THEN conjunct2,
      THEN conjunct1] s2 obtain q' where
    q': "quantity_field test_env (bookform ''-1'' ''quantity'') = Inr q'"
    and qs': "map quantity (book_table (db_after (edit_book test_env ?d (Some 1) 1 POST
        (bookform ''-1'')))) = map (\<lambda>b. if bid b = 1 then q' else quantity b) (book_table ?d)"
    and inv': "nonneg_inv (db_after (edit_book test_env ?d (Some 1) 1 POST (bookform ''-1'')))
        = (0 \<le> q')"
    by blast
  have qv': "q' = - 1"
    using q' unfolding qm by simp
  have e1: "map quantity (book_table (db_after (edit_book test_env ?d (Some 1) 1 POST
      (bookform ''-1'')))) = [- 1]"
    unfolding qs' qv' by (simp add: fixture_defs)
  have e2: "\<not> nonneg_inv (db_after (edit_book test_env ?d (Some 1) 1 POST (bookform ''-1'')))"
    unfolding inv' qv' by simp
  have f1: "\<not> succeeded (add_book test_env ?d (Some 1) POST (bookform ''5''))"
    by (simp add: succeeded_def add_book_def login_required_def bookform_def
        fixture_defs lookup_defs py_int_defs)
  have f2: "db_after (add_book test_env ?d (Some 1) POST (bookform ''5'')) = ?d"
    using bad [THEN conjunct2, THEN conjunct2, THEN conjunct2, THEN conjunct2, THEN conjunct1] f1
    by blast
  have f3: "\<not> succeeded (edit_book test_env ?d (Some 1) 1 POST (bookform ''abc''))"
    by (simp add: succeeded_def edit_book_def login_required_def bookform_def
        fixture_defs lookup_defs py_int_defs)
  have f4: "db_after (edit_book test_env ?d (Some 1) 1 POST (bookform ''abc'')) = ?d"
    using bad [THEN conjunct2, THEN conjunct2, THEN conjunct2, THEN conjunct2, THEN conjunct2,
      THEN conjunct2] f3
    by blast
  have d1: "book_table (db_after (delete_book ?c (Some 1) 1)) = [emma 0 False]"
    by (simp add: delete_book_def login_required_def fixture_defs lookup_defs)
  have d2: "nonneg_inv (db_after (delete_book ?c (Some 1) 1))"
    by (rule del [THEN conjunct2, THEN conjunct2, THEN conjunct1])
  show ?thesis
    by (intro conjI h b1 b2 r1 r2 s1 a1 a2 s2 e1 e2 f1 f2 f3 f4 hc d1 d2)
qed

subsection \<open>Registration\<close>

text \<open>
  C7. For an anonymous caller posting the registration form:
  when \<open>password\<close> differs from \<open>confirm_password\<close> the answer is "Passwords do not match."
  with the tables untouched (the comparison comes before any query or insert);
  when the username or the email belongs to a stored user the request fails as well, the
  tables untouched, with "Username or email already exists." if the passwords agree;
  otherwise, for a form that carries the five values, exactly one user row is appended, with a
  fresh id, and its \<open>password_hash\<close> is the result of \<open>generate_password_hash\<close> on the
  password; the password itself goes into no column.
\<close>

theorem register_checks:
  assumes "current_user d sess = None"
  shows "(frm ''password'' \<noteq> frm ''confirm_password'' \<longrightarrow>
            register e d sess POST frm =
              reply d sess (Redirect ''register'') [(''Passwords do not match.'', ''danger'')])
    \<and> ((\<exists>u \<in> set (user_table d). Some (username u) = frm ''username''
                                   \<or> Some (email u) = frm ''email'') \<longrightarrow>
            db_after (register e d sess POST frm) = d
            \<and> outcome (register e d sess POST frm) = Redirect ''register''
            \<and> map snd (flashed (register e d sess POST frm)) = [''danger'']
            \<and> (frm ''password'' = frm ''confirm_password'' \<longrightarrow>
                 flashed (register e d sess POST frm) =
                   [(''Username or email already exists.'', ''danger'')]))
    \<and> (\<forall>f un em p.
          frm ''fullname'' = Some f \<and> frm ''username'' = Some un \<and> frm ''email'' = Some em
          \<and> frm ''password'' = Some p \<and> frm ''confirm_password'' = Some p
          \<and> \<not> (\<exists>u \<in> set (user_table d). username u = un \<or> email u = em) \<longrightarrow>
            register e d sess POST frm =
              reply (d\<lparr>user_table := user_table d @
                       [\<lparr>uid = next_id (map uid (user_table d)), fullname = f, username = un,
                         email = em, password_hash = generate_password_hash e p,
                         created_at = now e\<rparr>]\<rparr>)
                sess (Redirect ''login'')
                [(''Registration successful. Please login.'', ''success'')])"
proof (intro conjI impI allI)
  assume "frm ''password'' \<noteq> frm ''confirm_password''"
  then show "register e d sess POST frm =
      reply d sess (Redirect ''register'') [(''Passwords do not match.'', ''danger'')]"
    using assms by (simp add: register_def)
next
  assume dup: "\<exists>u \<in> set (user_table d). Some (username u) = frm ''username''
                                   \<or> Some (email u) = frm ''email''"
  show "db_after (register e d sess POST frm) = d"
    using assms dup by (simp add: register_def Let_def)
  show "outcome (register e d sess POST frm) = Redirect ''register''"
    using assms dup by (simp add: register_def Let_def)
  show "map snd (flashed (register e d sess POST frm)) = [''danger'']"
    using assms dup by (simp add: register_def Let_def)
  assume "frm ''password'' = frm ''confirm_password''"
  then show "flashed (register e d sess POST frm) =
                   [(''Username or email already exists.'', ''danger'')]"
    using assms dup by (simp add: register_def Let_def)
next
  fix f un em p
  assume h: "frm ''fullname'' = Some f \<and> frm ''username'' = Some un \<and> frm ''email'' = Some em
          \<and> frm ''password'' = Some p \<and> frm ''confirm_password'' = Some p
          \<and> \<not> (\<exists>u \<in> set (user_table d). username u = un \<or> email u = em)"
  then show "register e d sess POST frm =
              reply (d\<lparr>user_table := user_table d @
                       [\<lparr>uid = next_id (map uid (user_table d)), fullname = f, username = un,
                         email = em, password_hash = generate_password_hash e p,
                         created_at = now e\<rparr>]\<rparr>)
                sess (Redirect ''login'')
                [(''Registration successful. Please login.'', ''success'')]"
    using assms by (simp add: register_def Let_def insert_user_def)
qed

theorem register_checks_witness:
  "current_user empty_db None = None
   \<and> current_user (library [] []) None = None
   \<and> (regform(''confirm_password'' \<mapsto> ''px'')) ''password''
        \<noteq> (regform(''confirm_password'' \<mapsto> ''px'')) ''confirm_password''
   \<and> register test_env empty_db None POST (regform(''confirm_password'' \<mapsto> ''px'')) =
        reply empty_db None (Redirect ''register'') [(''Passwords do not match.'', ''danger'')]
   \<and> (\<exists>u \<in> set (user_table (library [] [])).
          Some (username u) = regform ''username'' \<or> Some (email u) = regform ''email'')
   \<and> db_after (register test_env (library [] []) None POST regform) = library [] []
   \<and> flashed (register test_env (library [] []) None POST regform) =
        [(''Username or email already exists.'', ''danger'')]
   \<and> register test_env empty_db None POST regform =
        reply (library [] []) None (Redirect ''login'')
          [(''Registration successful. Please login.'', ''success'')]"
proof -
  have a1: "current_user empty_db None = None" and a2: "current_user (library [] []) None = None"
    by (simp_all add: current_user_def)
  have m: "(regform(''confirm_password'' \<mapsto> ''px'')) ''password''
        \<noteq> (regform(''confirm_password'' \<mapsto> ''px'')) ''confirm_password''"
    by (simp add: regform_def)
  have dup: "\<exists>u \<in> set (user_table (library [] [])).
          Some (username u) = regform ''username'' \<or> Some (email u) = regform ''email''"
    by (simp add: regform_def fixture_defs)
  have eq: "regform ''password'' = regform ''confirm_password''"
    by (simp add: regform_def)
  have ok: "regform ''fullname'' = Some ''Ann Lee'' \<and> regform ''username'' = Some ''ann''
      \<and> regform ''email'' = Some ''ann@example.org''
      \<and> regform ''password'' = Some ''pw'' \<and> regform ''confirm_password'' = Some ''pw''
      \<and> \<not> (\<exists>u \<in> set (user_table empty_db). username u = ''ann'' \<or> email u = ''ann@example.org'')"
    by (simp add: regform_def empty_db_def)
  have new: "empty_db\<lparr>user_table := user_table empty_db @
                       [\<lparr>uid = next_id (map uid (user_table empty_db)), fullname = ''Ann Lee'',
                         username = ''ann'', email = ''ann@example.org'',
                         password_hash = generate_password_hash test_env ''pw'',
                         created_at = now test_env\<rparr>]\<rparr> = library [] []"
    by (simp add: empty_db_def next_id_def fixture_defs)
  have w1: "register test_env empty_db None POST (regform(''confirm_password'' \<mapsto> ''px'')) =
        reply empty_db None (Redirect ''register'') [(''Passwords do not match.'', ''danger'')]"
    using register_checks [OF a1, of "regform(''confirm_password'' \<mapsto> ''px'')" test_env] m
    by blast
  have w2: "db_after (register test_env (library [] []) None POST regform) = library [] []
      \<and> flashed (register test_env (library [] []) None POST regform) =
        [(''Username or email already exists.'', ''danger'')]"
    using register_checks [OF a2, of regform test_env] dup eq by blast
  have w3: "register test_env empty_db None POST regform =
        reply (library [] []) None (Redirect ''login'')
          [(''Registration successful. Please login.'', ''success'')]"
    using register_checks [OF a1, of regform test_env] ok unfolding new [symmetric] by blast
  show ?thesis
    using a1 a2 m dup w1 w2 w3 by blast
qed

subsection \<open>The pattern \<open>%q%\<close>\<close>












subsection \<open>Searching the book list\<close>




subsection \<open>How failures are answered\<close>




subsection \<open>Two loans of one book to one user\<close>

text \<open>
  C10. Nothing limits a user to one open borrow record per book. For a logged-in user and
  a book with quantity at least 2, two borrow calls in a row by that user on that book both
  succeed; afterwards the borrow table is the old one followed by two new records with
  different ids (the next free id and its successor), both for this user and this book and
  both with \<open>returned_at\<close> NULL, and the quantity has gone down by two.
\<close>

theorem borrow_twice_same_user:
  assumes "current_user d sess = Some u" and "get_book d k = Some b" and "2 \<le> quantity b"
  shows "let r1 = borrow e1 d sess k; r2 = borrow e2 (db_after r1) sess k;
             n = next_id (map rid (borrow_table d))
         in outcome r1 = Redirect ''books'' \<and> outcome r2 = Redirect ''books''
            \<and> flashed r1 = [(''You borrowed '' @ [CHR 0x22] @ title b @ [CHR 0x22] @ ''.'', ''success'')]
            \<and> flashed r2 = [(''You borrowed '' @ [CHR 0x22] @ title b @ [CHR 0x22] @ ''.'', ''success'')]
            \<and> borrow_table (db_after r2) = borrow_table d @
                 [\<lparr>rid = n, user_id = uid u, book_id = k, borrowed_at = now e1, returned_at = None\<rparr>,
                  \<lparr>rid = Suc n, user_id = uid u, book_id = k, borrowed_at = now e2, returned_at = None\<rparr>]
            \<and> n \<notin> rid ` set (borrow_table d) \<and> Suc n \<notin> rid ` set (borrow_table d)
            \<and> map_option quantity (get_book (db_after r2) k) = Some (quantity b - 2)"
proof -
  define n where "n = next_id (map rid (borrow_table d))"
  define r1 where "r1 = borrow e1 d sess k"
  define d1 where "d1 = db_after r1"
  define b1 where "b1 = b\<lparr>quantity := quantity b - 1, available := (if quantity b - 1 = 0 then False else available b)\<rparr>"
  have q: "0 < quantity b" using assms(3) by simp
  have bk: "bid b = k" using get_book_SomeD[OF assms(2)] by simp
  note s1 = borrow_success[OF assms(1,2) q, of e1]
  have "user_table d1 = user_table d"
    by (simp add: d1_def r1_def s1 set_stock_def)
  then have u1: "current_user d1 sess = Some u"
    using assms(1) current_user_cong[of d1 d sess] by simp
  have g1: "get_book d1 k = Some b1"
    using assms(2) bk by (simp add: d1_def r1_def s1 get_book_def set_stock_def find_map_upd[where key = bid] b1_def)
  have q1: "0 < quantity b1" using assms(3) by (simp add: b1_def)
  have t1: "borrow_table d1 = borrow_table d @
      [\<lparr>rid = n, user_id = uid u, book_id = k, borrowed_at = now e1, returned_at = None\<rparr>]"
    by (simp add: d1_def r1_def s1 set_stock_def n_def)
  note s2 = borrow_success[OF u1 g1 q1, of e2]
  have ids: "next_id (map rid (borrow_table d1)) = Suc n"
    by (simp add: t1 n_def next_id_snoc)
  have fresh: "n \<notin> rid ` set (borrow_table d)"
    using next_id_fresh[of "map rid (borrow_table d)"] by (simp add: n_def)
  have fresh2: "Suc n \<notin> rid ` set (borrow_table d)"
    using foldr_max_le[of "Suc n" "map rid (borrow_table d)" 0] by (auto simp: n_def next_id_def)
  define r2 where "r2 = borrow e2 d1 sess k"
  have g2: "map_option quantity (get_book (db_after r2) k) = Some (quantity b - 2)"
    using g1 get_book_SomeD[OF g1]
    by (simp add: r2_def s2 get_book_def set_stock_def find_map_upd[where key = bid] b1_def)
  have t2: "borrow_table (db_after r2) = borrow_table d @
      [\<lparr>rid = n, user_id = uid u, book_id = k, borrowed_at = now e1, returned_at = None\<rparr>,
       \<lparr>rid = Suc n, user_id = uid u, book_id = k, borrowed_at = now e2, returned_at = None\<rparr>]"
    by (simp add: r2_def s2 set_stock_def ids) (simp add: t1)
  have o1: "outcome r1 = Redirect ''books''"
    and f1: "flashed r1 = [(''You borrowed '' @ [CHR 0x22] @ title b @ [CHR 0x22] @ ''.'', ''success'')]"
    by (simp_all add: r1_def s1)
  have o2: "outcome r2 = Redirect ''books''"
    and f2: "flashed r2 = [(''You borrowed '' @ [CHR 0x22] @ title b @ [CHR 0x22] @ ''.'', ''success'')]"
    by (simp_all add: r2_def s2 b1_def)
  show ?thesis
    unfolding Let_def r1_def[symmetric] d1_def[symmetric] r2_def[symmetric] n_def[symmetric]
    using o1 o2 f1 f2 t2 fresh fresh2 g2 by blast
qed

theorem borrow_twice_same_user_witness:
  "current_user (library [dune 2 True] []) (Some 1) = Some ann
   \<and> get_book (library [dune 2 True] []) 1 = Some (dune 2 True)
   \<and> 2 \<le> quantity (dune 2 True)
   \<and> borrow_table (db_after (borrow test_env
         (db_after (borrow test_env (library [dune 2 True] []) (Some 1) 1)) (Some 1) 1))
       = [\<lparr>rid = 1, user_id = 1, book_id = 1, borrowed_at = 7, returned_at = None\<rparr>,
          \<lparr>rid = 2, user_id = 1, book_id = 1, borrowed_at = 7, returned_at = None\<rparr>]"
proof -
  let ?d = "library [dune 2 True] []"
  have h1: "current_user ?d (Some 1) = Some ann"
    by (simp add: fixture_defs lookup_defs)
  have h2: "get_book ?d 1 = Some (dune 2 True)"
    by (simp add: fixture_defs lookup_defs)
  have h3: "2 \<le> quantity (dune 2 True)"
    by (simp add: dune_def)
  have v: "borrow_table ?d = []" "next_id [] = Suc 0" "uid ann = Suc 0" "now test_env = 7"
    by (simp_all add: fixture_defs next_id_def)
  show ?thesis
    using borrow_twice_same_user [OF h1 h2 h3, of test_env test_env] h1 h2 h3
    by (simp add: Let_def v)
qed

end
